theory Spec2Isabelle
  imports Main
begin

section \<open>The command-line entry point: \<^verbatim>\<open>src/supa/main.py\<close>\<close>

subsection \<open>Data\<close>

text \<open>\<^verbatim>\<open>pathlib.Path(value)\<close>: a path built from the string given on the command line.\<close>

datatype path = Path string

text \<open>
  \<^verbatim>\<open>@dataclass class CommonOptionsState\<close>: three optional fields, all \<^verbatim>\<open>None\<close> by default.
\<close>

record CommonOptionsState =
  database_file :: "path option"
  scheduler_max_workers :: "int option"
  domain_name :: "string option"

definition new_CommonOptionsState :: CommonOptionsState where
  "new_CommonOptionsState =
     \<lparr>database_file = None, scheduler_max_workers = None, domain_name = None\<rparr>"

text \<open>
  The process-wide \<^verbatim>\<open>settings\<close> object imported from package \<^verbatim>\<open>supa\<close>. Its class is
  not part of the sources at hand; the record has the five attributes that
  \<^verbatim>\<open>main.py\<close> reads and writes, and every other attribute lives in the record's
  extension part, so that statements about \<open>'a settings_scheme\<close> speak about all
  attributes.
\<close>

record settings =
  database_file :: path
  scheduler_max_workers :: int
  domain_name :: string
  grpc_max_workers :: int
  grpc_insecure_address_port :: string

text \<open>
  The Click context, as far as the callbacks use it: the slot \<^verbatim>\<open>ctx.obj\<close>, which holds the
  \<^verbatim>\<open>CommonOptionsState\<close> instance once one has been made.
\<close>

record Context =
  obj :: "CommonOptionsState option"

text \<open>
  \<^verbatim>\<open>ctx.ensure_object(CommonOptionsState)\<close>: the object the context holds, or a fresh
  default instance, which is then stored in the context.
\<close>

definition ensure_object :: "Context \<Rightarrow> CommonOptionsState \<times> Context" where
  "ensure_object ctx =
     (case obj ctx of
        Some cos \<Rightarrow> (cos, ctx)
      | None \<Rightarrow> (new_CommonOptionsState, ctx\<lparr>obj := Some new_CommonOptionsState\<rparr>))"

text \<open>
  What the program does to the world, in the order it does it. A callback and the
  body of \<^verbatim>\<open>serve\<close> append to this log; the attribute of a write or read is named by
  the string of its Python name. The two exceptions are those that the calls in
  \<^verbatim>\<open>serve\<close> raise: \<^verbatim>\<open>ValueError\<close> from \<^verbatim>\<open>ThreadPoolExecutor\<close>, \<^verbatim>\<open>RuntimeError\<close> from
  \<^verbatim>\<open>add_insecure_port\<close>.
\<close>

datatype py_exception = ValueError | RuntimeError

datatype effect =
    WriteSetting string
  | ReadSetting string
  | CallInitApp
  | NewThreadPool int
  | NewServer
  | NewConnectionProviderService
  | AddServicer
  | AddInsecurePort string
  | ServerStart
  | LogInfo
  | WaitForTermination
  | Raise py_exception

text \<open>The result of a callback: the returned value, the context, the settings, the log.\<close>

record ('v, 'a) callback_result =
  returned :: "'v option"
  ctx_after :: Context
  settings_after :: "'a settings_scheme"
  effects :: "effect list"

subsection \<open>The three common-option callbacks\<close>

text \<open>
  \<^verbatim>\<open>database_file_option.callback\<close>: with a value, the path goes into the
  \<^verbatim>\<open>CommonOptionsState\<close> and from there into \<^verbatim>\<open>settings.database_file\<close>; the value is
  returned as it came.
\<close>

definition database_file_callback ::
  "Context \<Rightarrow> 'a settings_scheme \<Rightarrow> string option \<Rightarrow> (string, 'a) callback_result" where
  "database_file_callback ctx st val =
     (let (cos, ctx1) = ensure_object ctx in
      case val of
        None \<Rightarrow> \<lparr>returned = val, ctx_after = ctx1, settings_after = st, effects = []\<rparr>
      | Some v \<Rightarrow>
          (let p = Path v;
               cos1 = cos\<lparr>CommonOptionsState.database_file := Some p\<rparr>;
               st1 = st\<lparr>settings.database_file := p\<rparr>
           in \<lparr>returned = val, ctx_after = ctx1\<lparr>obj := Some cos1\<rparr>, settings_after = st1,
               effects = [WriteSetting ''database_file'']\<rparr>))"

definition scheduler_max_workers_callback ::
  "Context \<Rightarrow> 'a settings_scheme \<Rightarrow> int option \<Rightarrow> (int, 'a) callback_result" where
  "scheduler_max_workers_callback ctx st val =
     (let (cos, ctx1) = ensure_object ctx in
      case val of
        None \<Rightarrow> \<lparr>returned = val, ctx_after = ctx1, settings_after = st, effects = []\<rparr>
      | Some v \<Rightarrow>
          (let cos1 = cos\<lparr>CommonOptionsState.scheduler_max_workers := Some v\<rparr>;
               st1 = st\<lparr>settings.scheduler_max_workers := v\<rparr>
           in \<lparr>returned = val, ctx_after = ctx1\<lparr>obj := Some cos1\<rparr>, settings_after = st1,
               effects = [WriteSetting ''scheduler_max_workers'']\<rparr>))"

definition domain_name_callback ::
  "Context \<Rightarrow> 'a settings_scheme \<Rightarrow> string option \<Rightarrow> (string, 'a) callback_result" where
  "domain_name_callback ctx st val =
     (let (cos, ctx1) = ensure_object ctx in
      case val of
        None \<Rightarrow> \<lparr>returned = val, ctx_after = ctx1, settings_after = st, effects = []\<rparr>
      | Some v \<Rightarrow>
          (let cos1 = cos\<lparr>CommonOptionsState.domain_name := Some v\<rparr>;
               st1 = st\<lparr>settings.domain_name := v\<rparr>
           in \<lparr>returned = val, ctx_after = ctx1\<lparr>obj := Some cos1\<rparr>, settings_after = st1,
               effects = [WriteSetting ''domain_name'']\<rparr>))"

subsection \<open>Option declarations\<close>

text \<open>
  \<^verbatim>\<open>click.option(...)(f)\<close> appends one option to the parameter list that the decorated
  function carries. An option is described by its name, by whether its value is passed
  to the sub-command, and by whether it has a callback.
\<close>

record option_decl =
  opt_name :: string
  expose_value :: bool
  has_callback :: bool

definition database_file_option :: "option_decl list \<Rightarrow> option_decl list" where
  "database_file_option f =
     f @ [\<lparr>opt_name = ''--database-file'', expose_value = False, has_callback = True\<rparr>]"

definition scheduler_max_workers_option :: "option_decl list \<Rightarrow> option_decl list" where
  "scheduler_max_workers_option f =
     f @ [\<lparr>opt_name = ''--scheduler-max-workers'', expose_value = False, has_callback = True\<rparr>]"

definition domain_name_option :: "option_decl list \<Rightarrow> option_decl list" where
  "domain_name_option f =
     f @ [\<lparr>opt_name = ''--domain-name'', expose_value = False, has_callback = True\<rparr>]"

definition common_options :: "option_decl list \<Rightarrow> option_decl list" where
  "common_options f =
     (let f1 = database_file_option f;
          f2 = scheduler_max_workers_option f1;
          f3 = domain_name_option f2
      in f3)"

text \<open>
  The decorators on \<^verbatim>\<open>serve\<close>, applied from the innermost outwards; Click reverses the
  collected list when it builds the command, which gives the declaration order.
\<close>

definition serve_params :: "option_decl list" where
  "serve_params =
     rev (common_options []
          @ [\<lparr>opt_name = ''--grpc-insecure-address-port'', expose_value = True, has_callback = False\<rparr>]
          @ [\<lparr>opt_name = ''--grpc-max-workers'', expose_value = True, has_callback = False\<rparr>])"

subsection \<open>The sub-command \<^verbatim>\<open>serve\<close>\<close>

text \<open>The gRPC server object, as far as \<^verbatim>\<open>serve\<close> shapes it.\<close>

record grpc_server =
  max_workers :: int
  servicers :: nat
  insecure_ports :: "string list"
  started :: bool

text \<open>
  A run of \<^verbatim>\<open>serve\<close>: the settings when \<^verbatim>\<open>init_app\<close> is called, the settings it leaves,
  the exception that ended the run or the server that was started, and the log.
\<close>

record 'a serve_run =
  settings_at_init :: "'a settings_scheme"
  final_settings :: "'a settings_scheme"
  outcome :: "py_exception + grpc_server"
  log :: "effect list"

text \<open>
  The body of \<^verbatim>\<open>serve\<close>, statement by statement. \<^verbatim>\<open>init_app\<close> is defined elsewhere in the
  package and is a parameter here: it is called with the settings as they are at that
  moment and may leave them changed. \<^verbatim>\<open>ThreadPoolExecutor(max_workers=n)\<close> raises
  \<^verbatim>\<open>ValueError\<close> for \<open>n \<le> 0\<close>, before a pool or a server exists. Whether an address can
  be bound is a matter of the machine and a parameter here; \<^verbatim>\<open>add_insecure_port\<close> raises
  \<^verbatim>\<open>RuntimeError\<close> when it cannot, and the server is not started. Otherwise the run is
  followed up to the call of \<^verbatim>\<open>server.wait_for_termination()\<close>, which blocks.
\<close>

definition serve ::
  "('a settings_scheme \<Rightarrow> 'a settings_scheme) \<Rightarrow> (string \<Rightarrow> bool) \<Rightarrow> int \<Rightarrow> string
     \<Rightarrow> 'a settings_scheme \<Rightarrow> 'a serve_run" where
  "serve init_app can_bind grpc_max_workers_arg grpc_insecure_address_port_arg st =
     (let st1 = st\<lparr>grpc_max_workers := grpc_max_workers_arg\<rparr>;
          st2 = st1\<lparr>grpc_insecure_address_port := grpc_insecure_address_port_arg\<rparr>;
          st3 = init_app st2;
          log1 = [WriteSetting ''grpc_max_workers'',
                  WriteSetting ''grpc_insecure_address_port'',
                  CallInitApp,
                  ReadSetting ''grpc_max_workers'']
      in if grpc_max_workers st3 \<le> 0
         then \<lparr>settings_at_init = st2, final_settings = st3, outcome = Inl ValueError,
               log = log1 @ [Raise ValueError]\<rparr>
         else
           (let srv = \<lparr>max_workers = grpc_max_workers st3, servicers = 0,
                       insecure_ports = [], started = False\<rparr>;
                srv1 = srv\<lparr>servicers := servicers srv + 1\<rparr>;
                log2 = log1 @ [NewThreadPool (grpc_max_workers st3),
                               NewServer,
                               ReadSetting ''grpc_max_workers'',
                               NewConnectionProviderService,
                               AddServicer,
                               ReadSetting ''grpc_insecure_address_port'']
            in if can_bind (grpc_insecure_address_port st3)
               then
                 (let srv2 = srv1\<lparr>insecure_ports :=
                                     insecure_ports srv1 @ [grpc_insecure_address_port st3]\<rparr>;
                      srv3 = srv2\<lparr>started := True\<rparr>
                  in \<lparr>settings_at_init = st2, final_settings = st3, outcome = Inr srv3,
                      log = log2 @ [AddInsecurePort (grpc_insecure_address_port st3),
                                    ReadSetting ''grpc_insecure_address_port'',
                                    ServerStart,
                                    LogInfo,
                                    WaitForTermination]\<rparr>)
               else \<lparr>settings_at_init = st2, final_settings = st3, outcome = Inl RuntimeError,
                     log = log2 @ [Raise RuntimeError]\<rparr>))"

subsection \<open>The command line of \<^verbatim>\<open>supa serve\<close>\<close>

text \<open>
  One option as it stands on the command line, its value converted to the option's
  type, and the five options of \<^verbatim>\<open>serve\<close>.
\<close>

datatype arg =
    GrpcMaxWorkers int
  | GrpcInsecureAddressPort string
  | DomainName string
  | SchedulerMaxWorkers int
  | DatabaseFile string

datatype opt =
    OptGrpcMaxWorkers
  | OptGrpcInsecureAddressPort
  | OptDomainName
  | OptSchedulerMaxWorkers
  | OptDatabaseFile

fun opt_of :: "arg \<Rightarrow> opt" where
  "opt_of (GrpcMaxWorkers n) = OptGrpcMaxWorkers"
| "opt_of (GrpcInsecureAddressPort a) = OptGrpcInsecureAddressPort"
| "opt_of (DomainName d) = OptDomainName"
| "opt_of (SchedulerMaxWorkers n) = OptSchedulerMaxWorkers"
| "opt_of (DatabaseFile f) = OptDatabaseFile"

fun opt_name_of :: "opt \<Rightarrow> string" where
  "opt_name_of OptGrpcMaxWorkers = ''--grpc-max-workers''"
| "opt_name_of OptGrpcInsecureAddressPort = ''--grpc-insecure-address-port''"
| "opt_name_of OptDomainName = ''--domain-name''"
| "opt_name_of OptSchedulerMaxWorkers = ''--scheduler-max-workers''"
| "opt_name_of OptDatabaseFile = ''--database-file''"

text \<open>
  The values the parser holds after it has read the command line: for each option the
  value given, or nothing. An option given more than once keeps its last value.
\<close>

record serve_argv =
  arg_grpc_max_workers :: "int option"
  arg_grpc_insecure_address_port :: "string option"
  arg_domain_name :: "string option"
  arg_scheduler_max_workers :: "int option"
  arg_database_file :: "string option"

definition no_argv :: serve_argv where
  "no_argv = \<lparr>arg_grpc_max_workers = None, arg_grpc_insecure_address_port = None,
              arg_domain_name = None, arg_scheduler_max_workers = None,
              arg_database_file = None\<rparr>"

fun store_arg :: "arg \<Rightarrow> serve_argv \<Rightarrow> serve_argv" where
  "store_arg (GrpcMaxWorkers n) v = v\<lparr>arg_grpc_max_workers := Some n\<rparr>"
| "store_arg (GrpcInsecureAddressPort a) v = v\<lparr>arg_grpc_insecure_address_port := Some a\<rparr>"
| "store_arg (DomainName d) v = v\<lparr>arg_domain_name := Some d\<rparr>"
| "store_arg (SchedulerMaxWorkers n) v = v\<lparr>arg_scheduler_max_workers := Some n\<rparr>"
| "store_arg (DatabaseFile f) v = v\<lparr>arg_database_file := Some f\<rparr>"

definition parse_args :: "arg list \<Rightarrow> serve_argv" where
  "parse_args argv = fold store_arg argv no_argv"

text \<open>
  The order in which Click declares the options of \<^verbatim>\<open>serve\<close>, and the order in which it
  processes them for one command line: the options given, in the order of their first
  appearance, then the others in the order of declaration.
\<close>

definition declaration_order :: "opt list" where
  "declaration_order =
     [OptGrpcMaxWorkers, OptGrpcInsecureAddressPort, OptDomainName, OptSchedulerMaxWorkers,
      OptDatabaseFile]"

definition processing_order :: "arg list \<Rightarrow> opt list" where
  "processing_order argv =
     rev (remdups (rev (map opt_of argv)))
     @ filter (\<lambda>x. x \<notin> set (map opt_of argv)) declaration_order"

text \<open>
  The defaults of the four options declared with \<^verbatim>\<open>default=settings.\<dots>\<close>. They are read
  from the settings object once, when the module is imported, and kept by the option.
  \<^verbatim>\<open>--database-file\<close> has no default.
\<close>

record serve_defaults =
  default_scheduler_max_workers :: int
  default_domain_name :: string
  default_grpc_max_workers :: int
  default_grpc_insecure_address_port :: string

definition defaults_at_import :: "'a settings_scheme \<Rightarrow> serve_defaults" where
  "defaults_at_import st =
     \<lparr>default_scheduler_max_workers = settings.scheduler_max_workers st,
      default_domain_name = settings.domain_name st,
      default_grpc_max_workers = grpc_max_workers st,
      default_grpc_insecure_address_port = grpc_insecure_address_port st\<rparr>"

text \<open>An option declared with \<^verbatim>\<open>default=d\<close>: the value given, or the default.\<close>

definition resolve :: "'v option \<Rightarrow> 'v \<Rightarrow> 'v" where
  "resolve given dflt = (case given of Some v \<Rightarrow> v | None \<Rightarrow> dflt)"

text \<open>
  The state while the options are processed, and the processing of one option: its
  callback, if it has one, is called with the value given or else the default
  (\<^verbatim>\<open>None\<close> for \<^verbatim>\<open>--database-file\<close>). The two gRPC options have no callback.
\<close>

record 'a parse_state =
  ps_ctx :: Context
  ps_settings :: "'a settings_scheme"
  ps_log :: "effect list"

fun process :: "serve_defaults \<Rightarrow> serve_argv \<Rightarrow> opt \<Rightarrow> 'a parse_state \<Rightarrow> 'a parse_state" where
  "process d v OptGrpcMaxWorkers ps = ps"
| "process d v OptGrpcInsecureAddressPort ps = ps"
| "process d v OptDomainName ps =
     (let r = domain_name_callback (ps_ctx ps) (ps_settings ps)
                (Some (resolve (arg_domain_name v) (default_domain_name d)))
      in \<lparr>ps_ctx = ctx_after r, ps_settings = settings_after r,
          ps_log = ps_log ps @ effects r\<rparr>)"
| "process d v OptSchedulerMaxWorkers ps =
     (let r = scheduler_max_workers_callback (ps_ctx ps) (ps_settings ps)
                (Some (resolve (arg_scheduler_max_workers v) (default_scheduler_max_workers d)))
      in \<lparr>ps_ctx = ctx_after r, ps_settings = settings_after r,
          ps_log = ps_log ps @ effects r\<rparr>)"
| "process d v OptDatabaseFile ps =
     (let r = database_file_callback (ps_ctx ps) (ps_settings ps) (arg_database_file v)
      in \<lparr>ps_ctx = ctx_after r, ps_settings = settings_after r,
          ps_log = ps_log ps @ effects r\<rparr>)"

definition parse_options ::
  "serve_defaults \<Rightarrow> arg list \<Rightarrow> Context \<Rightarrow> 'a settings_scheme \<Rightarrow> 'a parse_state" where
  "parse_options d argv ctx st =
     fold (process d (parse_args argv)) (processing_order argv)
       \<lparr>ps_ctx = ctx, ps_settings = st, ps_log = []\<rparr>"

text \<open>
  One invocation of \<^verbatim>\<open>supa serve\<close>: Click processes the options, then calls \<^verbatim>\<open>serve\<close>
  with the two exposed values. \<open>d\<close> holds the defaults taken at import, \<open>st\<close> is the
  settings object as it is when the command line is parsed.
\<close>

definition invoke_serve ::
  "('a settings_scheme \<Rightarrow> 'a settings_scheme) \<Rightarrow> (string \<Rightarrow> bool) \<Rightarrow> serve_defaults \<Rightarrow> arg list
     \<Rightarrow> Context \<Rightarrow> 'a settings_scheme \<Rightarrow> 'a serve_run" where
  "invoke_serve init_app can_bind d argv ctx st =
     (let ps = parse_options d argv ctx st;
          gmw = resolve (arg_grpc_max_workers (parse_args argv)) (default_grpc_max_workers d);
          addr = resolve (arg_grpc_insecure_address_port (parse_args argv))
                   (default_grpc_insecure_address_port d);
          run = serve init_app can_bind gmw addr (ps_settings ps)
      in run\<lparr>log := ps_log ps @ log run\<rparr>)"

subsection \<open>Reading the log\<close>

fun is_write :: "effect \<Rightarrow> bool" where
  "is_write (WriteSetting a) = True"
| "is_write e = False"

fun is_construction :: "effect \<Rightarrow> bool" where
  "is_construction (NewThreadPool n) = True"
| "is_construction NewServer = True"
| "is_construction NewConnectionProviderService = True"
| "is_construction e = False"

definition before_init :: "effect list \<Rightarrow> effect list" where
  "before_init es = takeWhile (\<lambda>e. e \<noteq> CallInitApp) es"

definition from_init :: "effect list \<Rightarrow> effect list" where
  "from_init es = dropWhile (\<lambda>e. e \<noteq> CallInitApp) es"

text \<open>
  The writes to settings that the processing of one option makes: the callbacks of
  \<^verbatim>\<open>--domain-name\<close> and \<^verbatim>\<open>--scheduler-max-workers\<close> always receive a value, the one of
  \<^verbatim>\<open>--database-file\<close> only when the option is given.
\<close>

fun writes_of :: "serve_argv \<Rightarrow> opt \<Rightarrow> effect list" where
  "writes_of v OptGrpcMaxWorkers = []"
| "writes_of v OptGrpcInsecureAddressPort = []"
| "writes_of v OptDomainName = [WriteSetting ''domain_name'']"
| "writes_of v OptSchedulerMaxWorkers = [WriteSetting ''scheduler_max_workers'']"
| "writes_of v OptDatabaseFile =
     (case arg_database_file v of None \<Rightarrow> [] | Some f \<Rightarrow> [WriteSetting ''database_file''])"

text \<open>
  The \<^verbatim>\<open>CommonOptionsState\<close> after all options of one command line have been processed,
  from the one \<^verbatim>\<open>ensure_object\<close> hands over first.
\<close>

definition parsed_state :: "serve_defaults \<Rightarrow> serve_argv \<Rightarrow> CommonOptionsState \<Rightarrow> CommonOptionsState" where
  "parsed_state d v cos =
     cos\<lparr>CommonOptionsState.database_file :=
           (case arg_database_file v of
              None \<Rightarrow> CommonOptionsState.database_file cos
            | Some f \<Rightarrow> Some (Path f)),
         CommonOptionsState.scheduler_max_workers :=
           Some (resolve (arg_scheduler_max_workers v) (default_scheduler_max_workers d)),
         CommonOptionsState.domain_name :=
           Some (resolve (arg_domain_name v) (default_domain_name d))\<rparr>"

text \<open>
  The settings and the \<^verbatim>\<open>CommonOptionsState\<close> after the options in a set have been
  processed: the attribute of each option in the set holds the value its callback
  was called with.
\<close>

definition settings_upd ::
  "serve_defaults \<Rightarrow> serve_argv \<Rightarrow> opt set \<Rightarrow> 'a settings_scheme \<Rightarrow> 'a settings_scheme" where
  "settings_upd d v S st =
     st\<lparr>settings.database_file :=
          (if OptDatabaseFile \<in> S
           then (case arg_database_file v of None \<Rightarrow> settings.database_file st | Some f \<Rightarrow> Path f)
           else settings.database_file st),
        settings.scheduler_max_workers :=
          (if OptSchedulerMaxWorkers \<in> S
           then resolve (arg_scheduler_max_workers v) (default_scheduler_max_workers d)
           else settings.scheduler_max_workers st),
        settings.domain_name :=
          (if OptDomainName \<in> S
           then resolve (arg_domain_name v) (default_domain_name d)
           else settings.domain_name st)\<rparr>"

definition cos_upd ::
  "serve_defaults \<Rightarrow> serve_argv \<Rightarrow> opt set \<Rightarrow> CommonOptionsState \<Rightarrow> CommonOptionsState" where
  "cos_upd d v S cos =
     cos\<lparr>CommonOptionsState.database_file :=
           (if OptDatabaseFile \<in> S
            then (case arg_database_file v of
                    None \<Rightarrow> CommonOptionsState.database_file cos
                  | Some f \<Rightarrow> Some (Path f))
            else CommonOptionsState.database_file cos),
         CommonOptionsState.scheduler_max_workers :=
           (if OptSchedulerMaxWorkers \<in> S
            then Some (resolve (arg_scheduler_max_workers v) (default_scheduler_max_workers d))
            else CommonOptionsState.scheduler_max_workers cos),
         CommonOptionsState.domain_name :=
           (if OptDomainName \<in> S
            then Some (resolve (arg_domain_name v) (default_domain_name d))
            else CommonOptionsState.domain_name cos)\<rparr>"

subsection \<open>Concrete inputs\<close>

text \<open>
  Two settings objects, an empty context, an environment in which every address can be
  bound and one in which none can, and a command line that gives both gRPC options.
\<close>

definition settings_a :: settings where
  "settings_a = \<lparr>database_file = Path ''supa.db'', scheduler_max_workers = 12,
                 domain_name = ''example.domain:2013'', grpc_max_workers = 8,
                 grpc_insecure_address_port = ''[::]:50051''\<rparr>"

definition settings_c :: settings where
  "settings_c = \<lparr>database_file = Path ''other.db'', scheduler_max_workers = 12,
                 domain_name = ''example.domain:2013'', grpc_max_workers = 8,
                 grpc_insecure_address_port = ''[::]:4321''\<rparr>"

definition empty_ctx :: Context where
  "empty_ctx = \<lparr>obj = None\<rparr>"

definition always_bind :: "string \<Rightarrow> bool" where
  "always_bind address = True"

definition never_bind :: "string \<Rightarrow> bool" where
  "never_bind address = False"

definition grpc_argv :: "arg list" where
  "grpc_argv = [GrpcMaxWorkers 4, GrpcInsecureAddressPort ''[::]:9000'']"

section \<open>The connection record and its state machines\<close>

text \<open>
  Modelled from the spec: the class \<^verbatim>\<open>ReservationStateMachine\<close> of
  \<^verbatim>\<open>supa.connection.fsm\<close> is not among the sources; the tests only import it. Its
  states are those of the spec's \<section>4.1.
\<close>

datatype reservation_state =
    ReserveStart
  | ReserveChecking
  | ReserveHeld
  | ReserveCommitting
  | ReserveAborting
  | ReserveTimeout

text \<open>Modelled from the spec: the states of the Provision machine, \<section>4.1.\<close>

datatype provision_state = Released | Provisioning | Provisioned | Releasing

text \<open>Modelled from the spec: the states of the Lifecycle machine, \<section>4.1.\<close>

datatype lifecycle_state = Created | Failed | PassedEndTime | Terminating | Terminated

text \<open>Modelled from the spec: the events that label the transitions of \<section>4.1.\<close>

datatype event =
    EvReserve
  | EvConfirmed
  | EvFailed
  | EvCommit
  | EvAbort
  | EvTimeout
  | EvAcknowledge
  | EvProvision
  | EvRelease
  | EvEndTimeReached
  | EvTerminate
  | EvError
  | EvActivated
  | EvDeactivated

text \<open>
  Modelled from the spec: the transition table of the Reservation machine, one row for
  each arrow of \<section>4.1, in the order the spec lists them.
\<close>

definition reservation_table :: "(reservation_state \<times> event \<times> reservation_state) list" where
  "reservation_table =
     [(ReserveStart, EvReserve, ReserveChecking),
      (ReserveChecking, EvConfirmed, ReserveHeld),
      (ReserveChecking, EvFailed, ReserveStart),
      (ReserveHeld, EvCommit, ReserveCommitting),
      (ReserveHeld, EvAbort, ReserveAborting),
      (ReserveHeld, EvTimeout, ReserveTimeout),
      (ReserveCommitting, EvConfirmed, ReserveStart),
      (ReserveCommitting, EvFailed, ReserveHeld),
      (ReserveAborting, EvConfirmed, ReserveStart),
      (ReserveTimeout, EvAcknowledge, ReserveStart)]"

text \<open>Modelled from the spec: the transition table of the Provision machine, \<section>4.1.\<close>

definition provision_table :: "(provision_state \<times> event \<times> provision_state) list" where
  "provision_table =
     [(Released, EvProvision, Provisioning),
      (Provisioning, EvConfirmed, Provisioned),
      (Provisioned, EvRelease, Releasing),
      (Releasing, EvConfirmed, Released)]"

text \<open>Modelled from the spec: the transition table of the Lifecycle machine, \<section>4.1.\<close>

definition lifecycle_table :: "(lifecycle_state \<times> event \<times> lifecycle_state) list" where
  "lifecycle_table =
     [(Created, EvEndTimeReached, PassedEndTime),
      (Created, EvTerminate, Terminating),
      (PassedEndTime, EvTerminate, Terminating),
      (Terminating, EvConfirmed, Terminated),
      (Created, EvError, Failed),
      (PassedEndTime, EvError, Failed),
      (Failed, EvTerminate, Terminating)]"

text \<open>
  Modelled from the spec: a machine is a deterministic table; a pair of state and event
  without a row is rejected (\<open>None\<close>).
\<close>

fun step :: "('s \<times> event \<times> 's) list \<Rightarrow> 's \<Rightarrow> event \<Rightarrow> 's option" where
  "step [] s e = None"
| "step ((a, ev, b) # rows) s e = (if a = s \<and> ev = e then Some b else step rows s e)"

text \<open>Modelled from the spec: the states a table mentions, as source or as target.\<close>

definition states_of :: "('s \<times> event \<times> 's) list \<Rightarrow> 's set" where
  "states_of rows = set (map fst rows) \<union> set (map (\<lambda>row. snd (snd row)) rows)"

section \<open>The test fixtures: \<^verbatim>\<open>tests/conftest.py\<close>\<close>

text \<open>
  The row that the fixture \<^verbatim>\<open>connection_id\<close> builds. The class \<^verbatim>\<open>Reservation\<close> of
  \<^verbatim>\<open>supa.db.model\<close> is not among the sources: the record has the columns the fixtures
  name. \<^verbatim>\<open>connection_id\<close> is empty until the database generates it;
  \<^verbatim>\<open>reservation_state\<close> is empty until a fixture sets it (the column default is not
  known here). Times are seconds; a UUID is a number.

  Modelled from the spec: the value under which a state is stored
  (\<^verbatim>\<open>ReservationStateMachine.ReserveHeld.value\<close>) is not given by the sources; the
  spec's record holds the state itself in \<^verbatim>\<open>reservationState\<close>, and so does this column.
\<close>

record Reservation =
  connection_id :: "nat option"
  correlation_id :: nat
  protocol_version :: string
  requester_nsa :: string
  provider_nsa :: string
  reply_to :: "string option"
  session_security_attributes :: "string option"
  global_reservation_id :: string
  description :: string
  version :: int
  start_time :: int
  end_time :: int
  bandwidth :: int
  symmetric :: bool
  src_domain :: string
  src_network_type :: string
  src_port :: string
  src_vlans :: int
  dst_domain :: string
  dst_network_type :: string
  dst_port :: string
  dst_vlans :: int
  lifecycle_state :: string
  reservation_state :: "reservation_state option"

text \<open>\<^verbatim>\<open>timedelta(minutes=n)\<close>, in seconds.\<close>

definition minutes :: "int \<Rightarrow> int" where
  "minutes n = n * 60"

text \<open>
  The constructor call of the fixture. \<^verbatim>\<open>uuid4()\<close> and the two readings of
  \<^verbatim>\<open>datetime.now(timezone.utc)\<close> are parameters.
\<close>

definition new_reservation :: "nat \<Rightarrow> int \<Rightarrow> int \<Rightarrow> Reservation" where
  "new_reservation uuid now1 now2 =
     \<lparr>connection_id = None,
      correlation_id = uuid,
      protocol_version = ''application/vnd.ogf.nsi.cs.v2.provider+soap'',
      requester_nsa = ''urn:ogf:network:example.domain:2021:requester'',
      provider_nsa = ''urn:ogf:network:example.domain:2021:provider'',
      reply_to = None,
      session_security_attributes = None,
      global_reservation_id = ''global reservation id'',
      description = ''reservation 1'',
      version = 0,
      start_time = now1 + minutes 10,
      end_time = now2 + minutes 20,
      bandwidth = 10,
      symmetric = True,
      src_domain = ''test.domain:2001'',
      src_network_type = ''topology'',
      src_port = ''port1'',
      src_vlans = 1783,
      dst_domain = ''test.domain:2001'',
      dst_network_type = ''topology'',
      dst_port = ''port2'',
      dst_vlans = 1783,
      lifecycle_state = ''CREATED'',
      reservation_state = None\<rparr>"

text \<open>
  Modelled from the spec: the database behind \<^verbatim>\<open>db_session\<close> is not among the sources.
  It is the list of its rows; \<^verbatim>\<open>session.add\<close> followed by \<^verbatim>\<open>session.flush\<close> stores the
  row under an identifier that the store assigns and that no row has yet.
\<close>

definition fresh_id :: "nat list \<Rightarrow> nat" where
  "fresh_id ks = Suc (fold max ks 0)"

text \<open>Modelled from the spec: the identifiers the database has given out.\<close>

definition row_ids :: "Reservation list \<Rightarrow> nat list" where
  "row_ids db = concat (map (\<lambda>r. case connection_id r of None \<Rightarrow> [] | Some k \<Rightarrow> [k]) db)"

text \<open>Modelled from the spec: \<^verbatim>\<open>session.add\<close> and \<^verbatim>\<open>session.flush\<close>, after which the row has its identifier.\<close>

definition add_flush :: "Reservation \<Rightarrow> Reservation list \<Rightarrow> Reservation \<times> Reservation list" where
  "add_flush r db =
     (let r1 = r\<lparr>connection_id := Some (fresh_id (row_ids db))\<rparr> in (r1, db @ [r1]))"

text \<open>The fixture \<^verbatim>\<open>connection_id\<close> up to its \<^verbatim>\<open>yield\<close>: the new row's identifier.\<close>

definition connection_id_fixture ::
  "nat \<Rightarrow> int \<Rightarrow> int \<Rightarrow> Reservation list \<Rightarrow> nat option \<times> Reservation list" where
  "connection_id_fixture uuid now1 now2 db =
     (let reservation = new_reservation uuid now1 now2;
          (reservation1, db1) = add_flush reservation db
      in (connection_id reservation1, db1))"

text \<open>
  The three state fixtures: the row with the given identifier, which \<^verbatim>\<open>.one()\<close> demands
  to be exactly one (\<open>None\<close> otherwise), gets the value of the named state.
\<close>

definition set_reservation_state ::
  "reservation_state \<Rightarrow> nat \<Rightarrow> Reservation list \<Rightarrow> Reservation list option" where
  "set_reservation_state st cid db =
     (if length (filter (\<lambda>r. connection_id r = Some cid) db) = 1
      then Some (map (\<lambda>r. if connection_id r = Some cid
                           then r\<lparr>reservation_state := Some st\<rparr> else r) db)
      else None)"

definition reserve_held :: "nat \<Rightarrow> Reservation list \<Rightarrow> Reservation list option" where
  "reserve_held cid db = set_reservation_state ReserveHeld cid db"

definition reserve_committing :: "nat \<Rightarrow> Reservation list \<Rightarrow> Reservation list option" where
  "reserve_committing cid db = set_reservation_state ReserveCommitting cid db"

definition reserve_aborting :: "nat \<Rightarrow> Reservation list \<Rightarrow> Reservation list option" where
  "reserve_aborting cid db = set_reservation_state ReserveAborting cid db"

section \<open>The Connection Manager\<close>

text \<open>
  Modelled from the spec: the request handlers of
  \<^verbatim>\<open>supa.connection.provider.server\<close> and the record they work on are not among the
  sources. An endpoint of \<section>3 has four fields; in a request each may be missing.
\<close>

record endpoint =
  domain :: "string option"
  networkType :: "string option"
  port :: "string option"
  vlan :: "nat option"

text \<open>
  Modelled from the spec: the Connection record of \<section>3, with its identity, parties,
  schedule, traffic parameters, version and four state fields. \<open>committed\<close> records
  that a reservation has been committed, which the Provision machine asks for.
\<close>

record Connection =
  connectionId :: nat
  correlationId :: nat
  globalReservationId :: string
  requesterId :: string
  providerId :: string
  replyTo :: "string option"
  startTime :: int
  endTime :: int
  bandwidth :: int
  symmetric :: bool
  source :: endpoint
  destination :: endpoint
  version :: nat
  reservationState :: reservation_state
  provisionState :: provision_state
  lifecycleState :: lifecycle_state
  dataPlaneActive :: bool
  dataPlaneError :: bool
  committed :: bool

text \<open>Modelled from the spec: the error taxonomy of \<section>7.\<close>

datatype error =
    ConnectionNotFound
  | VersionConflict
  | InvalidOperationForState reservation_state provision_state lifecycle_state bool
  | ConnectionAlreadyTerminated
  | ValidationError
  | InternalStoreError

text \<open>
  Modelled from the spec: the parameters of a \<^verbatim>\<open>reserve\<close> request, the fields of the
  record that the caller supplies.
\<close>

record reserve_params =
  p_correlationId :: nat
  p_globalReservationId :: string
  p_requesterId :: string
  p_providerId :: string
  p_replyTo :: "string option"
  p_startTime :: int
  p_endTime :: int
  p_bandwidth :: int
  p_symmetric :: bool
  p_source :: endpoint
  p_destination :: endpoint

text \<open>
  Modelled from the spec: the four machines of a connection, and the operations of
  \<section>4.2: the protocol verbs that change state, and the internal events that the
  scheduler and completed work deliver on the same path.
\<close>

datatype machine = ReservationM | ProvisionM | LifecycleM | DataPlaneM

text \<open>Modelled from the spec: the verbs of \<section>4.2 that change state, and the internal events, each with its machine.\<close>

datatype verb =
    Reserve reserve_params
  | ReserveCommit
  | ReserveAbort
  | Provision
  | Release
  | Terminate
  | Internal machine event

text \<open>Modelled from the spec: a request, \<section>4.2 step 1: the identifier (none for a first \<^verbatim>\<open>reserve\<close>), the expected version, the verb.\<close>

record request =
  req_connectionId :: "nat option"
  req_expectedVersion :: "nat option"
  req_verb :: verb

text \<open>Modelled from the spec: the machine and the event a verb stands for, \<section>4.1 and \<section>4.2.\<close>

fun target :: "verb \<Rightarrow> machine \<times> event" where
  "target (Reserve p) = (ReservationM, EvReserve)"
| "target ReserveCommit = (ReservationM, EvCommit)"
| "target ReserveAbort = (ReservationM, EvAbort)"
| "target Provision = (ProvisionM, EvProvision)"
| "target Release = (ProvisionM, EvRelease)"
| "target Terminate = (LifecycleM, EvTerminate)"
| "target (Internal m e) = (m, e)"

text \<open>
  Modelled from the spec: the malformed parameters of \<section>7. A request is well formed
  when its bandwidth is positive, its end time is after its start time, and no field of
  either endpoint is missing.
\<close>

definition endpoint_complete :: "endpoint \<Rightarrow> bool" where
  "endpoint_complete ep =
     (domain ep \<noteq> None \<and> networkType ep \<noteq> None \<and> port ep \<noteq> None \<and> vlan ep \<noteq> None)"

text \<open>Modelled from the spec: the three conditions of \<section>7 on the parameters of \<^verbatim>\<open>reserve\<close>.\<close>

definition valid_params :: "reserve_params \<Rightarrow> bool" where
  "valid_params p =
     (0 < p_bandwidth p \<and> p_startTime p < p_endTime p
      \<and> endpoint_complete (p_source p) \<and> endpoint_complete (p_destination p))"

text \<open>
  Modelled from the spec: the Record Store of \<section>6, the list of its records, each
  found by its \<^verbatim>\<open>connectionId\<close>. \<^verbatim>\<open>create\<close> assigns an identifier no record has and
  version 0; \<^verbatim>\<open>update\<close> replaces the record when the stored version is the expected
  one. A store failure (\<^verbatim>\<open>InternalStoreError\<close>) does not occur in this store.
\<close>

type_synonym store = "Connection list"

text \<open>Modelled from the spec: \<^verbatim>\<open>load(connectionId)\<close> of \<section>6, the first record with that identifier.\<close>

definition load :: "store \<Rightarrow> nat \<Rightarrow> Connection option" where
  "load s cid = find (\<lambda>c. connectionId c = cid) s"

text \<open>Modelled from the spec: \<^verbatim>\<open>create(Connection)\<close> of \<section>6, which assigns \<^verbatim>\<open>connectionId\<close> and version 0.\<close>

definition create :: "store \<Rightarrow> Connection \<Rightarrow> Connection \<times> store" where
  "create s c =
     (let c1 = c\<lparr>connectionId := fresh_id (map connectionId s), version := 0\<rparr>
      in (c1, s @ [c1]))"

text \<open>Modelled from the spec: the write of \<^verbatim>\<open>update\<close>, in place of the stored record.\<close>

definition replace :: "Connection \<Rightarrow> store \<Rightarrow> store" where
  "replace c s = map (\<lambda>x. if connectionId x = connectionId c then c else x) s"

text \<open>Modelled from the spec: \<^verbatim>\<open>update(Connection, expectedVersion)\<close> of \<section>6.\<close>

definition update :: "store \<Rightarrow> Connection \<Rightarrow> nat \<Rightarrow> error + store" where
  "update s c expectedVersion =
     (case load s (connectionId c) of
        None \<Rightarrow> Inl ConnectionNotFound
      | Some stored \<Rightarrow>
          if version stored = expectedVersion then Inr (replace c s)
          else Inl VersionConflict)"

text \<open>
  Modelled from the spec: the record of a first reservation, \<section>3 and \<section>4.1: the
  reservation machine is in \<^verbatim>\<open>ReserveChecking\<close>, the provision machine in \<^verbatim>\<open>Released\<close>,
  the lifecycle in \<^verbatim>\<open>Created\<close>, the data plane inactive.
\<close>

definition new_connection :: "reserve_params \<Rightarrow> Connection" where
  "new_connection p =
     \<lparr>connectionId = 0,
      correlationId = p_correlationId p,
      globalReservationId = p_globalReservationId p,
      requesterId = p_requesterId p,
      providerId = p_providerId p,
      replyTo = p_replyTo p,
      startTime = p_startTime p,
      endTime = p_endTime p,
      bandwidth = p_bandwidth p,
      symmetric = p_symmetric p,
      source = p_source p,
      destination = p_destination p,
      version = 0,
      reservationState = ReserveChecking,
      provisionState = Released,
      lifecycleState = Created,
      dataPlaneActive = False,
      dataPlaneError = False,
      committed = False\<rparr>"

text \<open>
  Modelled from the spec: one machine driven by one event on a record, \<section>4.1.
  Provision events need the reservation machine at rest with a committed reservation;
  the data plane goes inactive when provisioning leaves \<^verbatim>\<open>Provisioned\<close> or the lifecycle
  reaches \<^verbatim>\<open>Terminated\<close>, and becomes active only while \<^verbatim>\<open>Provisioned\<close> and not
  terminated.
\<close>

fun drive :: "machine \<Rightarrow> event \<Rightarrow> Connection \<Rightarrow> Connection option" where
  "drive ReservationM e c =
     (case step reservation_table (reservationState c) e of
        None \<Rightarrow> None
      | Some st \<Rightarrow>
          Some (c\<lparr>reservationState := st,
                  committed := (if reservationState c = ReserveCommitting \<and> e = EvConfirmed
                                then True else committed c)\<rparr>))"
| "drive ProvisionM e c =
     (if reservationState c = ReserveStart \<and> committed c then
        (case step provision_table (provisionState c) e of
           None \<Rightarrow> None
         | Some st \<Rightarrow>
             Some (c\<lparr>provisionState := st,
                     dataPlaneActive := (if st = Provisioned then dataPlaneActive c else False)\<rparr>))
      else None)"
| "drive LifecycleM e c =
     (case step lifecycle_table (lifecycleState c) e of
        None \<Rightarrow> None
      | Some st \<Rightarrow>
          Some (c\<lparr>lifecycleState := st,
                  dataPlaneActive := (if st = Terminated then False else dataPlaneActive c)\<rparr>))"
| "drive DataPlaneM e c =
     (if e = EvActivated then
        (if provisionState c = Provisioned \<and> lifecycleState c \<noteq> Terminated
         then Some (c\<lparr>dataPlaneActive := True\<rparr>) else None)
      else if e = EvDeactivated then Some (c\<lparr>dataPlaneActive := False\<rparr>)
      else None)"

text \<open>
  Modelled from the spec: the lookup of step 2 of \<section>4.2; a request without an
  identifier finds no record.
\<close>

definition lookup :: "store \<Rightarrow> nat option \<Rightarrow> Connection option" where
  "lookup s cid = (case cid of None \<Rightarrow> None | Some k \<Rightarrow> load s k)"

text \<open>
  Modelled from the spec: one operation of the Connection Manager, \<section>4.2 and \<section>7,
  returning the store and the outcome. Malformed parameters are turned away at the
  boundary, before the store is read. A record that is absent is created by \<^verbatim>\<open>reserve\<close>
  and is \<^verbatim>\<open>ConnectionNotFound\<close> for every other verb. On a record that exists: a
  terminated lifecycle rejects the verb, then the expected version must be the stored
  one, then the machine must accept the event; the accepted change is written with the
  version incremented. A rejected operation returns the store it was given.
\<close>

text \<open>Modelled from the spec: a request with malformed parameters, \<section>7; only \<^verbatim>\<open>reserve\<close> carries parameters.\<close>

definition malformed :: "request \<Rightarrow> bool" where
  "malformed r = (case req_verb r of Reserve p \<Rightarrow> \<not> valid_params p | _ \<Rightarrow> False)"

definition handle :: "store \<Rightarrow> request \<Rightarrow> store \<times> (error + Connection)" where
  "handle s r =
     (if malformed r then (s, Inl ValidationError)
      else
        (case lookup s (req_connectionId r) of
           None \<Rightarrow>
             (case req_verb r of
                Reserve p \<Rightarrow> (let (c, s1) = create s (new_connection p) in (s1, Inr c))
              | _ \<Rightarrow> (s, Inl ConnectionNotFound))
         | Some c \<Rightarrow>
             if lifecycleState c = Terminated then (s, Inl ConnectionAlreadyTerminated)
             else if req_expectedVersion r \<noteq> Some (version c) then (s, Inl VersionConflict)
             else
               (case drive (fst (target (req_verb r))) (snd (target (req_verb r))) c of
                  None \<Rightarrow>
                    (s, Inl (InvalidOperationForState (reservationState c) (provisionState c)
                               (lifecycleState c) (dataPlaneActive c)))
                | Some c1 \<Rightarrow>
                    (case update s (c1\<lparr>version := version c + 1\<rparr>) (version c) of
                       Inl e \<Rightarrow> (s, Inl e)
                     | Inr s1 \<Rightarrow> (s1, Inr (c1\<lparr>version := version c + 1\<rparr>))))))"

text \<open>Modelled from the spec: a sequence of operations, each on the store the last left.\<close>

fun run :: "store \<Rightarrow> request list \<Rightarrow> store" where
  "run s [] = s"
| "run s (r # rs) = run (fst (handle s r)) rs"

section \<open>Concrete inputs\<close>

text \<open>
  A well-formed \<^verbatim>\<open>reserve\<close> request with the values of the test fixture, read at time
  0: bandwidth 10, start in ten minutes, end in twenty.
\<close>

definition ep1 :: endpoint where
  "ep1 = \<lparr>domain = Some ''test.domain:2001'', networkType = Some ''topology'',
          port = Some ''port1'', vlan = Some 1783\<rparr>"

definition ep2 :: endpoint where
  "ep2 = \<lparr>domain = Some ''test.domain:2001'', networkType = Some ''topology'',
          port = Some ''port2'', vlan = Some 1783\<rparr>"

definition params1 :: reserve_params where
  "params1 =
     \<lparr>p_correlationId = 1,
      p_globalReservationId = ''global reservation id'',
      p_requesterId = ''urn:ogf:network:example.domain:2021:requester'',
      p_providerId = ''urn:ogf:network:example.domain:2021:provider'',
      p_replyTo = None,
      p_startTime = minutes 10,
      p_endTime = minutes 20,
      p_bandwidth = 10,
      p_symmetric = True,
      p_source = ep1,
      p_destination = ep2\<rparr>"

definition reserve1 :: request where
  "reserve1 = \<lparr>req_connectionId = None, req_expectedVersion = None, req_verb = Reserve params1\<rparr>"

text \<open>The record that request creates in an empty store, and that store.\<close>

definition conn1 :: Connection where
  "conn1 = (new_connection params1)\<lparr>connectionId := 1\<rparr>"

definition store1 :: store where
  "store1 = [conn1]"

definition confirmed1 :: request where
  "confirmed1 = \<lparr>req_connectionId = Some 1, req_expectedVersion = Some 0,
                 req_verb = Internal ReservationM EvConfirmed\<rparr>"

definition commit1 :: request where
  "commit1 = \<lparr>req_connectionId = Some 1, req_expectedVersion = Some 1,
              req_verb = ReserveCommit\<rparr>"

definition confirmed2 :: request where
  "confirmed2 = \<lparr>req_connectionId = Some 1, req_expectedVersion = Some 2,
                 req_verb = Internal ReservationM EvConfirmed\<rparr>"

text \<open>A request with bandwidth 0, addressed to a record that exists.\<close>

definition bad_reserve :: request where
  "bad_reserve = \<lparr>req_connectionId = Some 1, req_expectedVersion = Some 0,
                  req_verb = Reserve (params1\<lparr>p_bandwidth := 0\<rparr>)\<rparr>"

section \<open>The store and the manager: auxiliary facts\<close>

lemma fold_max_ge_init: "a \<le> fold max ks (a::nat)"
  by (induction ks arbitrary: a) (auto intro: order_trans [OF max.cobounded2])

lemma fold_max_ge_mem: "k \<in> set ks \<Longrightarrow> k \<le> fold max ks (a::nat)"
proof (induction ks arbitrary: a)
  case Nil
  then show ?case by simp
next
  case (Cons x xs)
  show ?case
  proof (cases "k = x")
    case True
    have "x \<le> max x a" by simp
    also have "\<dots> \<le> fold max xs (max x a)" by (rule fold_max_ge_init)
    finally show ?thesis using True by simp
  next
    case False
    with Cons.prems have "k \<in> set xs" by simp
    then show ?thesis using Cons.IH by simp
  qed
qed

lemma fresh_id_fresh: "fresh_id ks \<notin> set ks"
proof
  assume "fresh_id ks \<in> set ks"
  then have "fresh_id ks \<le> fold max ks 0" by (rule fold_max_ge_mem)
  then show False by (simp add: fresh_id_def)
qed

lemma load_connectionId: "load s k = Some c \<Longrightarrow> connectionId c = k"
  by (auto simp: load_def find_Some_iff)

lemma load_fresh: "load s (fresh_id (map connectionId s)) = None"
proof -
  have "connectionId c \<noteq> fresh_id (map connectionId s)" if "c \<in> set s" for c
  proof
    assume "connectionId c = fresh_id (map connectionId s)"
    then have "fresh_id (map connectionId s) \<in> set (map connectionId s)"
      using that by (metis image_eqI set_map)
    then show False using fresh_id_fresh by blast
  qed
  then show ?thesis by (simp add: load_def find_None_iff)
qed

lemma load_append:
  "load (s @ [c1]) k =
     (case load s k of Some x \<Rightarrow> Some x | None \<Rightarrow> if connectionId c1 = k then Some c1 else None)"
  by (induction s) (auto simp: load_def)

lemma load_replace_same:
  "load s (connectionId c) = Some c0 \<Longrightarrow> load (replace c s) (connectionId c) = Some c"
  by (induction s) (auto simp: load_def replace_def split: if_splits)

lemma load_replace_other:
  "k \<noteq> connectionId c \<Longrightarrow> load (replace c s) k = load s k"
  by (induction s) (auto simp: load_def replace_def)

lemma drive_connectionId: "drive m e c = Some c1 \<Longrightarrow> connectionId c1 = connectionId c"
  by (cases m) (auto split: option.splits if_splits)

lemma handle_malformed: "malformed r \<Longrightarrow> handle s r = (s, Inl ValidationError)"
  by (simp add: handle_def)

lemma handle_absent_reserve:
  "\<not> malformed r \<Longrightarrow> lookup s (req_connectionId r) = None \<Longrightarrow> req_verb r = Reserve p \<Longrightarrow>
   handle s r = (snd (create s (new_connection p)), Inr (fst (create s (new_connection p))))"
  by (simp add: handle_def split: prod.split)

lemma handle_absent_other:
  "\<not> malformed r \<Longrightarrow> lookup s (req_connectionId r) = None \<Longrightarrow> \<forall>p. req_verb r \<noteq> Reserve p \<Longrightarrow>
   handle s r = (s, Inl ConnectionNotFound)"
  by (cases "req_verb r") (simp_all add: handle_def)

lemma handle_terminated:
  "\<not> malformed r \<Longrightarrow> lookup s (req_connectionId r) = Some c \<Longrightarrow> lifecycleState c = Terminated \<Longrightarrow>
   handle s r = (s, Inl ConnectionAlreadyTerminated)"
  by (simp add: handle_def)

lemma handle_conflict:
  "\<not> malformed r \<Longrightarrow> lookup s (req_connectionId r) = Some c \<Longrightarrow> lifecycleState c \<noteq> Terminated \<Longrightarrow>
   req_expectedVersion r \<noteq> Some (version c) \<Longrightarrow> handle s r = (s, Inl VersionConflict)"
  by (simp add: handle_def)

lemma handle_invalid:
  "\<not> malformed r \<Longrightarrow> lookup s (req_connectionId r) = Some c \<Longrightarrow> lifecycleState c \<noteq> Terminated \<Longrightarrow>
   req_expectedVersion r = Some (version c) \<Longrightarrow>
   drive (fst (target (req_verb r))) (snd (target (req_verb r))) c = None \<Longrightarrow>
   handle s r = (s, Inl (InvalidOperationForState (reservationState c) (provisionState c)
                          (lifecycleState c) (dataPlaneActive c)))"
  by (simp add: handle_def)

lemma handle_accepted:
  assumes "\<not> malformed r" and "lookup s (req_connectionId r) = Some c"
    and "lifecycleState c \<noteq> Terminated" and "req_expectedVersion r = Some (version c)"
    and "drive (fst (target (req_verb r))) (snd (target (req_verb r))) c = Some c1"
  shows "handle s r = (replace (c1\<lparr>version := version c + 1\<rparr>) s,
                       Inr (c1\<lparr>version := version c + 1\<rparr>))"
proof -
  obtain k where k: "req_connectionId r = Some k" "load s k = Some c"
    using assms(2) by (auto simp: lookup_def split: option.splits)
  have "connectionId c1 = k"
    using drive_connectionId [OF assms(5)] load_connectionId [OF k(2)] by simp
  then have "update s (c1\<lparr>version := version c + 1\<rparr>) (version c)
             = Inr (replace (c1\<lparr>version := version c + 1\<rparr>) s)"
    using k(2) by (simp add: update_def)
  then show ?thesis using assms by (simp add: handle_def)
qed

lemma handle_rejected: "snd (handle s r) = Inl e \<Longrightarrow> fst (handle s r) = s"
proof (cases "malformed r")
  case True
  then show ?thesis by (simp add: handle_malformed)
next
  case nm: False
  assume rej: "snd (handle s r) = Inl e"
  show ?thesis
  proof (cases "lookup s (req_connectionId r)")
    case None
    show ?thesis
    proof (cases "\<exists>p. req_verb r = Reserve p")
      case True
      then obtain p where "req_verb r = Reserve p" by blast
      then show ?thesis using rej handle_absent_reserve [OF nm None] by simp
    next
      case False
      then show ?thesis using handle_absent_other [OF nm None] by simp
    qed
  next
    case (Some c)
    show ?thesis
    proof (cases "lifecycleState c = Terminated")
      case True
      then show ?thesis using handle_terminated [OF nm Some] by simp
    next
      case nt: False
      show ?thesis
      proof (cases "req_expectedVersion r = Some (version c)")
        case False
        then show ?thesis using handle_conflict [OF nm Some nt] by simp
      next
        case ev: True
        show ?thesis
        proof (cases "drive (fst (target (req_verb r))) (snd (target (req_verb r))) c")
          case None
          then show ?thesis using handle_invalid [OF nm Some nt ev] by simp
        next
          case (Some c1)
          then show ?thesis using rej handle_accepted [OF nm \<open>lookup s (req_connectionId r) = Some c\<close> nt ev] by simp
        qed
      qed
    qed
  qed
qed

lemma handle_shape:
  "(fst (handle s r) = s \<and> (\<exists>e. snd (handle s r) = Inl e))
   \<or> (\<exists>c1. lookup s (req_connectionId r) = None \<and> fst (handle s r) = s @ [c1]
           \<and> snd (handle s r) = Inr c1 \<and> version c1 = 0)
   \<or> (\<exists>c c1. lookup s (req_connectionId r) = Some c \<and> connectionId c1 = connectionId c
           \<and> version c1 = version c + 1
           \<and> fst (handle s r) = replace c1 s \<and> snd (handle s r) = Inr c1)"
proof (cases "malformed r")
  case True
  then show ?thesis by (simp add: handle_malformed)
next
  case nm: False
  show ?thesis
  proof (cases "lookup s (req_connectionId r)")
    case None
    show ?thesis
    proof (cases "\<exists>p. req_verb r = Reserve p")
      case True
      then obtain p where "req_verb r = Reserve p" by blast
      then show ?thesis using None handle_absent_reserve [OF nm None]
        by (simp add: create_def Let_def)
    next
      case False
      then show ?thesis using handle_absent_other [OF nm None] by simp
    qed
  next
    case (Some c)
    note lk = this
    show ?thesis
    proof (cases "lifecycleState c = Terminated")
      case True
      then show ?thesis using handle_terminated [OF nm Some] by simp
    next
      case nt: False
      show ?thesis
      proof (cases "req_expectedVersion r = Some (version c)")
        case False
        then show ?thesis using handle_conflict [OF nm Some nt] by simp
      next
        case ev: True
        show ?thesis
        proof (cases "drive (fst (target (req_verb r))) (snd (target (req_verb r))) c")
          case None
          then show ?thesis using handle_invalid [OF nm Some nt ev] by simp
        next
          case (Some c1)
          have "connectionId (c1\<lparr>version := version c + 1\<rparr>) = connectionId c"
            using drive_connectionId [OF Some] by simp
          then show ?thesis using lk handle_accepted [OF nm lk nt ev Some] by simp
        qed
      qed
    qed
  qed
qed

lemma handle_existing:
  assumes "load s cid = Some c" and "req_connectionId r = Some cid"
  shows "(case snd (handle s r) of
            Inr c1 \<Rightarrow> version c1 = version c + 1 \<and> load (fst (handle s r)) cid = Some c1
          | Inl e \<Rightarrow> fst (handle s r) = s)"
proof (cases "snd (handle s r)")
  case (Inl e)
  then show ?thesis using handle_rejected [of s r e] by simp
next
  case (Inr c2)
  have lk: "lookup s (req_connectionId r) = Some c" using assms by (simp add: lookup_def)
  have cid: "connectionId c = cid" using assms(1) by (rule load_connectionId)
  from handle_shape [of s r] Inr lk
  obtain c1 where upd: "connectionId c1 = connectionId c" "version c1 = version c + 1"
        "fst (handle s r) = replace c1 s" "snd (handle s r) = Inr c1"
    by auto
  then have "c2 = c1" using Inr by simp
  moreover have "load (replace c1 s) (connectionId c1) = Some c1"
    using load_replace_same [of s c1 c] assms(1) upd(1) cid by simp
  ultimately show ?thesis using upd cid Inr by simp
qed

lemma handle_keeps:
  assumes "load s k = Some c"
  shows "\<exists>c1. load (fst (handle s r)) k = Some c1 \<and> version c \<le> version c1"
proof -
  from handle_shape [of s r]
  consider (same) "fst (handle s r) = s"
    | (new) c1 where "fst (handle s r) = s @ [c1]"
    | (upd) c0 c1 where "lookup s (req_connectionId r) = Some c0"
        "connectionId c1 = connectionId c0" "version c1 = version c0 + 1"
        "fst (handle s r) = replace c1 s"
    by blast
  then show ?thesis
  proof cases
    case same
    then show ?thesis using assms by simp
  next
    case new
    then show ?thesis using assms by (simp add: load_append)
  next
    case upd
    obtain k0 where k0: "load s k0 = Some c0"
      using upd(1) by (auto simp: lookup_def split: option.splits)
    have id0: "connectionId c0 = k0" using k0 by (rule load_connectionId)
    show ?thesis
    proof (cases "k = k0")
      case True
      then have "c0 = c" using k0 assms by simp
      moreover have "load (replace c1 s) (connectionId c1) = Some c1"
        using load_replace_same [of s c1 c0] k0 upd(2) id0 by simp
      ultimately show ?thesis using upd True id0 by simp
    next
      case False
      then have "load (replace c1 s) k = load s k"
        using load_replace_other [of k c1 s] upd(2) id0 by simp
      then show ?thesis using upd(4) assms by simp
    qed
  qed
qed

lemma run_keeps:
  "load s k = Some c \<Longrightarrow> \<exists>c1. load (run s rs) k = Some c1 \<and> version c \<le> version c1"
proof (induction rs arbitrary: s c)
  case Nil
  then show ?case by simp
next
  case (Cons r rs)
  from handle_keeps [OF Cons.prems, of r]
  obtain c1 where c1: "load (fst (handle s r)) k = Some c1" "version c \<le> version c1" by blast
  from Cons.IH [OF c1(1)]
  obtain c2 where "load (run (fst (handle s r)) rs) k = Some c2" "version c1 \<le> version c2"
    by blast
  then show ?case using c1(2) by auto
qed


lemma conn1_fields:
  "connectionId conn1 = 1" "version conn1 = 0" "lifecycleState conn1 = Created"
  "reservationState conn1 = ReserveChecking"
  by (simp_all add: conn1_def new_connection_def)

lemma reserve1_creates: "handle [] reserve1 = ([conn1], Inr conn1)"
proof -
  have nm: "\<not> malformed reserve1"
    by (simp add: malformed_def reserve1_def valid_params_def params1_def ep1_def
        ep2_def endpoint_complete_def minutes_def)
  have lk: "lookup [] (req_connectionId reserve1) = None" by (simp add: reserve1_def lookup_def)
  have vb: "req_verb reserve1 = Reserve params1" by (simp add: reserve1_def)
  show ?thesis using handle_absent_reserve [OF nm lk vb]
    by (simp add: create_def Let_def fresh_id_def conn1_def new_connection_def)
qed

lemma confirmed1_accepted:
  "handle store1 confirmed1
     = ([conn1\<lparr>reservationState := ReserveHeld, version := 1\<rparr>],
        Inr (conn1\<lparr>reservationState := ReserveHeld, version := 1\<rparr>))"
proof -
  have nm: "\<not> malformed confirmed1" by (simp add: malformed_def confirmed1_def)
  have lk: "lookup store1 (req_connectionId confirmed1) = Some conn1"
    by (simp add: lookup_def load_def store1_def confirmed1_def conn1_fields)
  have nt: "lifecycleState conn1 \<noteq> Terminated" by (simp add: conn1_fields)
  have ev: "req_expectedVersion confirmed1 = Some (version conn1)"
    by (simp add: confirmed1_def conn1_fields)
  have dr: "drive (fst (target (req_verb confirmed1))) (snd (target (req_verb confirmed1))) conn1
            = Some (conn1\<lparr>reservationState := ReserveHeld\<rparr>)"
    by (simp add: confirmed1_def conn1_fields reservation_table_def)
  show ?thesis using handle_accepted [OF nm lk nt ev dr]
    by (simp add: replace_def store1_def conn1_fields)
qed

lemma commit1_accepted:
  "handle [conn1\<lparr>reservationState := ReserveHeld, version := 1\<rparr>] commit1
     = ([conn1\<lparr>reservationState := ReserveCommitting, version := 2\<rparr>],
        Inr (conn1\<lparr>reservationState := ReserveCommitting, version := 2\<rparr>))"
proof -
  let ?c = "conn1\<lparr>reservationState := ReserveHeld, version := 1\<rparr>"
  have nm: "\<not> malformed commit1" by (simp add: malformed_def commit1_def)
  have lk: "lookup [?c] (req_connectionId commit1) = Some ?c"
    by (simp add: lookup_def load_def commit1_def conn1_fields)
  have nt: "lifecycleState ?c \<noteq> Terminated" by (simp add: conn1_fields)
  have ev: "req_expectedVersion commit1 = Some (version ?c)" by (simp add: commit1_def)
  have dr: "drive (fst (target (req_verb commit1))) (snd (target (req_verb commit1))) ?c
            = Some (?c\<lparr>reservationState := ReserveCommitting\<rparr>)"
    by (simp add: commit1_def reservation_table_def)
  show ?thesis using handle_accepted [OF nm lk nt ev dr]
    by (simp add: replace_def conn1_fields)
qed

lemma confirmed2_accepted:
  "handle [conn1\<lparr>reservationState := ReserveCommitting, version := 2\<rparr>] confirmed2
     = ([conn1\<lparr>reservationState := ReserveStart, version := 3, committed := True\<rparr>],
        Inr (conn1\<lparr>reservationState := ReserveStart, version := 3, committed := True\<rparr>))"
proof -
  let ?c = "conn1\<lparr>reservationState := ReserveCommitting, version := 2\<rparr>"
  have nm: "\<not> malformed confirmed2" by (simp add: malformed_def confirmed2_def)
  have lk: "lookup [?c] (req_connectionId confirmed2) = Some ?c"
    by (simp add: lookup_def load_def confirmed2_def conn1_fields)
  have nt: "lifecycleState ?c \<noteq> Terminated" by (simp add: conn1_fields)
  have ev: "req_expectedVersion confirmed2 = Some (version ?c)" by (simp add: confirmed2_def)
  have dr: "drive (fst (target (req_verb confirmed2))) (snd (target (req_verb confirmed2))) ?c
            = Some (?c\<lparr>reservationState := ReserveStart, committed := True\<rparr>)"
    by (simp add: confirmed2_def reservation_table_def)
  show ?thesis using handle_accepted [OF nm lk nt ev dr]
    by (simp add: replace_def conn1_fields)
qed

text \<open>
  The scenario of a committed reservation: created at version 0, confirmed at 1,
  committing at 2, back in \<^verbatim>\<open>ReserveStart\<close> at version 3.
\<close>

lemma commit_scenario:
  "run [] [reserve1, confirmed1, commit1, confirmed2]
     = [conn1\<lparr>reservationState := ReserveStart, version := 3, committed := True\<rparr>]"
  by (simp only: run.simps fst_conv reserve1_creates confirmed1_accepted [unfolded store1_def]
      commit1_accepted confirmed2_accepted)

section \<open>The command line: auxiliary facts\<close>

lemma declaration_order_names: "map opt_name_of declaration_order = map opt_name serve_params"
  by (simp add: declaration_order_def serve_params_def common_options_def
      database_file_option_def scheduler_max_workers_option_def domain_name_option_def)

lemma set_declaration_order: "set declaration_order = UNIV"
proof (rule UNIV_eq_I [symmetric])
  fix x :: opt
  show "x \<in> set declaration_order" by (cases x) (simp_all add: declaration_order_def)
qed

lemma set_processing_order: "set (processing_order argv) = UNIV"
  using set_declaration_order by (auto simp: processing_order_def)

lemma distinct_processing_order: "distinct (processing_order argv)"
  by (auto simp: processing_order_def declaration_order_def)

lemma ensure_object_held: "obj ctx = Some cos \<Longrightarrow> ensure_object ctx = (cos, ctx)"
  by (simp add: ensure_object_def)

lemma ensure_object_obj: "obj (snd (ensure_object ctx)) = Some (fst (ensure_object ctx))"
  by (simp add: ensure_object_def split: option.split)

lemma process_log: "ps_log (process d v x ps) = ps_log ps @ writes_of v x"
  by (cases x)
     (simp_all add: domain_name_callback_def scheduler_max_workers_callback_def
        database_file_callback_def Let_def split: prod.split option.split)

lemma fold_process_log:
  "ps_log (fold (process d v) xs ps) = ps_log ps @ concat (map (writes_of v) xs)"
  by (induction xs arbitrary: ps) (simp_all add: process_log)

lemma process_settings: "ps_settings (process d v x ps) = settings_upd d v {x} (ps_settings ps)"
  by (cases x)
     (simp_all add: settings_upd_def domain_name_callback_def scheduler_max_workers_callback_def
        database_file_callback_def Let_def split: prod.split option.split)

lemma settings_upd_step:
  "settings_upd d v (set xs) (settings_upd d v {x} st) = settings_upd d v (set (x # xs)) st"
  by (cases x) (simp_all add: settings_upd_def split: option.split)

lemma fold_process_settings:
  "ps_settings (fold (process d v) xs ps) = settings_upd d v (set xs) (ps_settings ps)"
proof (induction xs arbitrary: ps)
  case Nil
  show ?case by (simp add: settings_upd_def)
next
  case (Cons x xs)
  show ?case using Cons [of "process d v x ps"]
    by (simp add: process_settings settings_upd_step del: set_simps)
qed

lemma process_cos:
  "fst (ensure_object (ps_ctx (process d v x ps)))
     = cos_upd d v {x} (fst (ensure_object (ps_ctx ps)))"
  by (cases x)
     (simp_all add: cos_upd_def domain_name_callback_def scheduler_max_workers_callback_def
        database_file_callback_def ensure_object_def Let_def split: prod.split option.split)

lemma cos_upd_step: "cos_upd d v (set xs) (cos_upd d v {x} cos) = cos_upd d v (set (x # xs)) cos"
  by (cases x) (simp_all add: cos_upd_def split: option.split)

lemma fold_process_cos:
  "fst (ensure_object (ps_ctx (fold (process d v) xs ps)))
     = cos_upd d v (set xs) (fst (ensure_object (ps_ctx ps)))"
proof (induction xs arbitrary: ps)
  case Nil
  show ?case by (simp add: cos_upd_def)
next
  case (Cons x xs)
  show ?case using Cons [of "process d v x ps"]
    by (simp add: process_cos cos_upd_step del: set_simps)
qed

lemma process_keeps_obj: "obj (ps_ctx ps) \<noteq> None \<Longrightarrow> obj (ps_ctx (process d v x ps)) \<noteq> None"
  by (cases x)
     (auto simp: domain_name_callback_def scheduler_max_workers_callback_def
        database_file_callback_def ensure_object_def Let_def split: prod.split option.split)

lemma process_makes_obj: "x = OptDatabaseFile \<Longrightarrow> obj (ps_ctx (process d v x ps)) \<noteq> None"
  by (auto simp: database_file_callback_def ensure_object_def Let_def
      split: prod.split option.split)

lemma fold_process_keeps_obj:
  "obj (ps_ctx ps) \<noteq> None \<Longrightarrow> obj (ps_ctx (fold (process d v) xs ps)) \<noteq> None"
proof (induction xs arbitrary: ps)
  case Nil
  then show ?case by simp
next
  case (Cons x xs)
  from Cons.prems have "obj (ps_ctx (process d v x ps)) \<noteq> None" by (rule process_keeps_obj)
  then have "obj (ps_ctx (fold (process d v) xs (process d v x ps))) \<noteq> None" by (rule Cons.IH)
  then show ?case by simp
qed

lemma fold_process_makes_obj:
  "OptDatabaseFile \<in> set xs \<Longrightarrow> obj (ps_ctx (fold (process d v) xs ps)) \<noteq> None"
proof (induction xs arbitrary: ps)
  case Nil
  then show ?case by simp
next
  case (Cons x xs)
  show ?case
  proof (cases "x = OptDatabaseFile")
    case True
    then have "obj (ps_ctx (process d v x ps)) \<noteq> None" by (rule process_makes_obj)
    then have "obj (ps_ctx (fold (process d v) xs (process d v x ps))) \<noteq> None"
      by (rule fold_process_keeps_obj)
    then show ?thesis by simp
  next
    case False
    then have "OptDatabaseFile \<in> set xs" using Cons.prems by simp
    then have "obj (ps_ctx (fold (process d v) xs (process d v x ps))) \<noteq> None"
      by (rule Cons.IH)
    then show ?thesis by simp
  qed
qed

lemma obj_ensure: "obj ctx \<noteq> None \<Longrightarrow> obj ctx = Some (fst (ensure_object ctx))"
  by (auto simp: ensure_object_def)

lemma parse_options_settings:
  "ps_settings (parse_options d argv ctx st) = settings_upd d (parse_args argv) UNIV st"
  by (simp add: parse_options_def fold_process_settings set_processing_order)

lemma parse_options_log:
  "ps_log (parse_options d argv ctx st)
     = concat (map (writes_of (parse_args argv)) (processing_order argv))"
  by (simp add: parse_options_def fold_process_log)

lemma parse_options_ctx:
  "obj (ps_ctx (parse_options d argv ctx st))
     = Some (parsed_state d (parse_args argv) (fst (ensure_object ctx)))"
proof -
  let ?ps = "fold (process d (parse_args argv)) (processing_order argv)
               \<lparr>ps_ctx = ctx, ps_settings = st, ps_log = []\<rparr>"
  have "OptDatabaseFile \<in> set (processing_order argv)" by (simp add: set_processing_order)
  then have "obj (ps_ctx ?ps) \<noteq> None" by (rule fold_process_makes_obj)
  then have "obj (ps_ctx ?ps) = Some (fst (ensure_object (ps_ctx ?ps)))" by (rule obj_ensure)
  also have "fst (ensure_object (ps_ctx ?ps))
      = cos_upd d (parse_args argv) UNIV (fst (ensure_object ctx))"
    by (simp add: fold_process_cos set_processing_order)
  also have "\<dots> = parsed_state d (parse_args argv) (fst (ensure_object ctx))"
    by (simp add: cos_upd_def parsed_state_def)
  finally show ?thesis by (simp add: parse_options_def)
qed

lemma writes_are_writes: "filter is_write (concat (map (writes_of v) xs)) = concat (map (writes_of v) xs)"
proof (induction xs)
  case Nil
  show ?case by simp
next
  case (Cons x xs)
  have "filter is_write (writes_of v x) = writes_of v x" by (cases x) (simp_all split: option.split)
  then show ?case using Cons by simp
qed

lemma writes_no_init: "CallInitApp \<notin> set (concat (map (writes_of v) xs))"
proof (induction xs)
  case Nil
  show ?case by simp
next
  case (Cons x xs)
  have "CallInitApp \<notin> set (writes_of v x)" by (cases x) (simp_all split: option.split)
  then show ?case using Cons by simp
qed

lemma writes_no_construction: "filter is_construction (concat (map (writes_of v) xs)) = []"
proof (induction xs)
  case Nil
  show ?case by simp
next
  case (Cons x xs)
  have "filter is_construction (writes_of v x) = []" by (cases x) (simp_all split: option.split)
  then show ?case using Cons by simp
qed

lemma serve_settings:
  "settings_at_init (serve init_app can_bind mw addr st)
     = st\<lparr>grpc_max_workers := mw, grpc_insecure_address_port := addr\<rparr>"
  "final_settings (serve init_app can_bind mw addr st)
     = init_app (st\<lparr>grpc_max_workers := mw, grpc_insecure_address_port := addr\<rparr>)"
  by (simp_all add: serve_def Let_def)

lemma serve_outcome:
  "outcome (serve init_app can_bind mw addr st)
     = (if grpc_max_workers (final_settings (serve init_app can_bind mw addr st)) \<le> 0
        then Inl ValueError
        else if can_bind (grpc_insecure_address_port (final_settings (serve init_app can_bind mw addr st)))
        then Inr \<lparr>max_workers = grpc_max_workers (final_settings (serve init_app can_bind mw addr st)),
                  servicers = 1,
                  insecure_ports =
                    [grpc_insecure_address_port (final_settings (serve init_app can_bind mw addr st))],
                  started = True\<rparr>
        else Inl RuntimeError)"
  by (simp add: serve_def Let_def)

lemma serve_log:
  "before_init (log (serve init_app can_bind mw addr st))
     = [WriteSetting ''grpc_max_workers'', WriteSetting ''grpc_insecure_address_port'']"
  "filter is_write (from_init (log (serve init_app can_bind mw addr st))) = []"
  "filter (\<lambda>e. e = CallInitApp) (log (serve init_app can_bind mw addr st)) = [CallInitApp]"
  "filter is_construction (from_init (log (serve init_app can_bind mw addr st)))
     = (if grpc_max_workers (final_settings (serve init_app can_bind mw addr st)) \<le> 0 then []
        else [NewThreadPool (grpc_max_workers (final_settings (serve init_app can_bind mw addr st))),
              NewServer, NewConnectionProviderService])"
  by (simp_all add: serve_def Let_def before_init_def from_init_def)

lemma invoke_serve_fields:
  "settings_at_init (invoke_serve init_app can_bind d argv ctx st)
     = settings_at_init (serve init_app can_bind
         (resolve (arg_grpc_max_workers (parse_args argv)) (default_grpc_max_workers d))
         (resolve (arg_grpc_insecure_address_port (parse_args argv))
            (default_grpc_insecure_address_port d))
         (ps_settings (parse_options d argv ctx st)))"
  "final_settings (invoke_serve init_app can_bind d argv ctx st)
     = final_settings (serve init_app can_bind
         (resolve (arg_grpc_max_workers (parse_args argv)) (default_grpc_max_workers d))
         (resolve (arg_grpc_insecure_address_port (parse_args argv))
            (default_grpc_insecure_address_port d))
         (ps_settings (parse_options d argv ctx st)))"
  "outcome (invoke_serve init_app can_bind d argv ctx st)
     = outcome (serve init_app can_bind
         (resolve (arg_grpc_max_workers (parse_args argv)) (default_grpc_max_workers d))
         (resolve (arg_grpc_insecure_address_port (parse_args argv))
            (default_grpc_insecure_address_port d))
         (ps_settings (parse_options d argv ctx st)))"
  "log (invoke_serve init_app can_bind d argv ctx st)
     = concat (map (writes_of (parse_args argv)) (processing_order argv))
       @ log (serve init_app can_bind
         (resolve (arg_grpc_max_workers (parse_args argv)) (default_grpc_max_workers d))
         (resolve (arg_grpc_insecure_address_port (parse_args argv))
            (default_grpc_insecure_address_port d))
         (ps_settings (parse_options d argv ctx st)))"
  by (simp_all add: invoke_serve_def Let_def parse_options_log)

lemma before_init_append:
  "CallInitApp \<notin> set ws \<Longrightarrow> before_init (ws @ es) = ws @ before_init es"
  by (induction ws) (auto simp: before_init_def)

lemma from_init_append:
  "CallInitApp \<notin> set ws \<Longrightarrow> from_init (ws @ es) = from_init es"
  by (induction ws) (auto simp: from_init_def)

lemma invoke_serve_settings_at_init:
  "settings_at_init (invoke_serve init_app can_bind d argv ctx st)
     = st\<lparr>settings.database_file :=
             (case arg_database_file (parse_args argv) of
                None \<Rightarrow> settings.database_file st
              | Some f \<Rightarrow> Path f),
           settings.scheduler_max_workers :=
             resolve (arg_scheduler_max_workers (parse_args argv)) (default_scheduler_max_workers d),
           settings.domain_name :=
             resolve (arg_domain_name (parse_args argv)) (default_domain_name d),
           grpc_max_workers :=
             resolve (arg_grpc_max_workers (parse_args argv)) (default_grpc_max_workers d),
           grpc_insecure_address_port :=
             resolve (arg_grpc_insecure_address_port (parse_args argv))
               (default_grpc_insecure_address_port d)\<rparr>"
  by (simp add: invoke_serve_fields serve_settings parse_options_settings settings_upd_def)

lemma invoke_serve_log:
  "before_init (log (invoke_serve init_app can_bind d argv ctx st))
     = concat (map (writes_of (parse_args argv)) (processing_order argv))
       @ [WriteSetting ''grpc_max_workers'', WriteSetting ''grpc_insecure_address_port'']"
  "filter is_write (from_init (log (invoke_serve init_app can_bind d argv ctx st))) = []"
  "filter (\<lambda>e. e = CallInitApp) (log (invoke_serve init_app can_bind d argv ctx st))
     = [CallInitApp]"
proof -
  let ?ws = "concat (map (writes_of (parse_args argv)) (processing_order argv))"
  have ni: "CallInitApp \<notin> set ?ws" by (rule writes_no_init)
  show "before_init (log (invoke_serve init_app can_bind d argv ctx st))
     = ?ws @ [WriteSetting ''grpc_max_workers'', WriteSetting ''grpc_insecure_address_port'']"
    by (simp add: invoke_serve_fields before_init_append [OF ni] serve_log)
  show "filter is_write (from_init (log (invoke_serve init_app can_bind d argv ctx st))) = []"
    by (simp add: invoke_serve_fields from_init_append [OF ni] serve_log)
  have "\<forall>e \<in> set ?ws. e \<noteq> CallInitApp" using ni by blast
  then have "filter (\<lambda>e. e = CallInitApp) ?ws = []" by (simp only: filter_False)
  then show "filter (\<lambda>e. e = CallInitApp) (log (invoke_serve init_app can_bind d argv ctx st))
     = [CallInitApp]"
    by (simp add: invoke_serve_fields serve_log)
qed

section \<open>Properties of the command-line entry point\<close>

text \<open>
  C8. Each of the three common-option callbacks (database-file, scheduler-max-workers,
  domain-name) returns the value it was called with, be it \<^verbatim>\<open>None\<close> or not.
\<close>

theorem callbacks_return_value:
  "returned (database_file_callback ctx st dv) = dv
   \<and> returned (scheduler_max_workers_callback ctx st sv) = sv
   \<and> returned (domain_name_callback ctx st nv) = nv"
  by (simp add: database_file_callback_def scheduler_max_workers_callback_def
        domain_name_callback_def Let_def split: prod.split option.split)

text \<open>
  C9. Called with \<^verbatim>\<open>None\<close>, each common-option callback leaves the settings object as it
  is, in all its attributes, and leaves the \<^verbatim>\<open>CommonOptionsState\<close> object as
  \<^verbatim>\<open>ensure_object\<close> handed it over: the one the context held, or the fresh default one.
\<close>

theorem callbacks_none_frame:
  "ctx_after (database_file_callback ctx st None) = snd (ensure_object ctx)
   \<and> obj (ctx_after (database_file_callback ctx st None)) = Some (fst (ensure_object ctx))
   \<and> settings_after (database_file_callback ctx st None) = st
   \<and> ctx_after (scheduler_max_workers_callback ctx st None) = snd (ensure_object ctx)
   \<and> obj (ctx_after (scheduler_max_workers_callback ctx st None)) = Some (fst (ensure_object ctx))
   \<and> settings_after (scheduler_max_workers_callback ctx st None) = st
   \<and> ctx_after (domain_name_callback ctx st None) = snd (ensure_object ctx)
   \<and> obj (ctx_after (domain_name_callback ctx st None)) = Some (fst (ensure_object ctx))
   \<and> settings_after (domain_name_callback ctx st None) = st
   \<and> fst (ensure_object ctx) = (case obj ctx of Some cos \<Rightarrow> cos | None \<Rightarrow> new_CommonOptionsState)"
  by (simp add: database_file_callback_def scheduler_max_workers_callback_def
        domain_name_callback_def ensure_object_def Let_def split: prod.split option.split)

text \<open>
  C3, as claimed: for the values given to \<^verbatim>\<open>serve\<close> the thread pool is created with
  \<^verbatim>\<open>settings.grpc_max_workers\<close> workers and the server is bound to
  \<^verbatim>\<open>settings.grpc_insecure_address_port\<close>. With \<^verbatim>\<open>--grpc-max-workers 0\<close> no pool and no
  server is created, the run ends in \<^verbatim>\<open>ValueError\<close>; with an address that cannot be
  bound it ends in \<^verbatim>\<open>RuntimeError\<close>.
\<close>

theorem serve_without_pool_counterexample:
  "outcome (serve id always_bind 0 ''[::]:50051'' settings_a) = Inl ValueError
   \<and> filter is_construction (log (serve id always_bind 0 ''[::]:50051'' settings_a)) = []
   \<and> outcome (serve id never_bind 8 ''[::]:50051'' settings_a) = Inl RuntimeError"
  by (simp add: serve_def Let_def settings_a_def always_bind_def never_bind_def)

text \<open>
  C3, amended. The options of \<^verbatim>\<open>serve\<close> are the gRPC pool size, the bind address and
  port, the domain name, the scheduler's pool size and the database file. The body of
  \<^verbatim>\<open>serve\<close> writes its two arguments to \<^verbatim>\<open>settings.grpc_max_workers\<close> and
  \<^verbatim>\<open>settings.grpc_insecure_address_port\<close> before it calls \<^verbatim>\<open>init_app\<close>, for all values.
  With the settings as \<^verbatim>\<open>init_app\<close> leaves them: when \<^verbatim>\<open>settings.grpc_max_workers\<close> is
  not positive, the run ends in \<^verbatim>\<open>ValueError\<close> and nothing is constructed; otherwise
  the pool is made with exactly that many workers, then the server and the service,
  and the server is bound to \<^verbatim>\<open>settings.grpc_insecure_address_port\<close> and started when
  that address can be bound, and the run ends in \<^verbatim>\<open>RuntimeError\<close> when it cannot.
\<close>

theorem serve_grpc_options:
  "map opt_name serve_params =
     [''--grpc-max-workers'', ''--grpc-insecure-address-port'', ''--domain-name'',
      ''--scheduler-max-workers'', ''--database-file'']
   \<and> settings_at_init (serve init_app can_bind mw addr st)
       = st\<lparr>grpc_max_workers := mw, grpc_insecure_address_port := addr\<rparr>
   \<and> final_settings (serve init_app can_bind mw addr st)
       = init_app (st\<lparr>grpc_max_workers := mw, grpc_insecure_address_port := addr\<rparr>)
   \<and> before_init (log (serve init_app can_bind mw addr st))
       = [WriteSetting ''grpc_max_workers'', WriteSetting ''grpc_insecure_address_port'']
   \<and> outcome (serve init_app can_bind mw addr st)
       = (if grpc_max_workers (final_settings (serve init_app can_bind mw addr st)) \<le> 0
          then Inl ValueError
          else if can_bind (grpc_insecure_address_port
                              (final_settings (serve init_app can_bind mw addr st)))
          then Inr \<lparr>max_workers =
                      grpc_max_workers (final_settings (serve init_app can_bind mw addr st)),
                    servicers = 1,
                    insecure_ports =
                      [grpc_insecure_address_port
                         (final_settings (serve init_app can_bind mw addr st))],
                    started = True\<rparr>
          else Inl RuntimeError)
   \<and> filter is_construction (from_init (log (serve init_app can_bind mw addr st)))
       = (if grpc_max_workers (final_settings (serve init_app can_bind mw addr st)) \<le> 0 then []
          else [NewThreadPool (grpc_max_workers (final_settings (serve init_app can_bind mw addr st))),
                NewServer, NewConnectionProviderService])"
proof -
  have names: "map opt_name serve_params =
     [''--grpc-max-workers'', ''--grpc-insecure-address-port'', ''--domain-name'',
      ''--scheduler-max-workers'', ''--database-file'']"
    by (simp add: serve_params_def common_options_def database_file_option_def
        scheduler_max_workers_option_def domain_name_option_def)
  note o = serve_outcome [of init_app can_bind mw addr st]
  note l = serve_log(4) [of init_app can_bind mw addr st]
  show ?thesis using names o l by (simp add: serve_settings serve_log(1))
qed

text \<open>
  C1, as claimed: parsing the command line does not change the shared settings object.
  It does: the database-file callback, called with a value, leaves a settings object
  that differs from the one it found.
\<close>

theorem parse_mutates_settings_counterexample:
  "settings_after (database_file_callback empty_ctx settings_a (Some ''other.db'')) \<noteq> settings_a"
  by (simp add: database_file_callback_def ensure_object_def empty_ctx_def settings_a_def Let_def)

text \<open>
  C1, amended. A common-option callback called with a value writes that value to its
  field of the \<^verbatim>\<open>CommonOptionsState\<close> and to its attribute of the shared settings
  object, while the command line is parsed; \<^verbatim>\<open>serve\<close> writes its two gRPC arguments to
  settings. In an invocation of \<^verbatim>\<open>serve\<close> each option is processed once; after
  parsing, settings and \<^verbatim>\<open>CommonOptionsState\<close> hold the values the callbacks were
  called with; what happens before the call of \<^verbatim>\<open>init_app\<close> is the writes of the
  callbacks followed by the two writes of \<^verbatim>\<open>serve\<close>, and nothing else: nothing is
  constructed before that call, \<^verbatim>\<open>init_app\<close> is called once, and from that call on
  \<^verbatim>\<open>serve\<close> does not write to settings any more.
\<close>

theorem settings_written_before_init_app:
  "settings_after (database_file_callback ctx st (Some v)) = st\<lparr>settings.database_file := Path v\<rparr>
   \<and> obj (ctx_after (database_file_callback ctx st (Some v)))
       = Some ((fst (ensure_object ctx))\<lparr>CommonOptionsState.database_file := Some (Path v)\<rparr>)
   \<and> effects (database_file_callback ctx st (Some v)) = [WriteSetting ''database_file'']
   \<and> settings_after (scheduler_max_workers_callback ctx st (Some n))
       = st\<lparr>settings.scheduler_max_workers := n\<rparr>
   \<and> obj (ctx_after (scheduler_max_workers_callback ctx st (Some n)))
       = Some ((fst (ensure_object ctx))\<lparr>CommonOptionsState.scheduler_max_workers := Some n\<rparr>)
   \<and> effects (scheduler_max_workers_callback ctx st (Some n))
       = [WriteSetting ''scheduler_max_workers'']
   \<and> settings_after (domain_name_callback ctx st (Some dn)) = st\<lparr>settings.domain_name := dn\<rparr>
   \<and> obj (ctx_after (domain_name_callback ctx st (Some dn)))
       = Some ((fst (ensure_object ctx))\<lparr>CommonOptionsState.domain_name := Some dn\<rparr>)
   \<and> effects (domain_name_callback ctx st (Some dn)) = [WriteSetting ''domain_name'']
   \<and> settings_at_init (serve init_app can_bind mw addr st)
       = st\<lparr>grpc_max_workers := mw, grpc_insecure_address_port := addr\<rparr>
   \<and> before_init (log (serve init_app can_bind mw addr st))
       = [WriteSetting ''grpc_max_workers'', WriteSetting ''grpc_insecure_address_port'']
   \<and> ps_settings (parse_options d argv ctx st)
       = st\<lparr>settings.database_file :=
               (case arg_database_file (parse_args argv) of
                  None \<Rightarrow> settings.database_file st
                | Some f \<Rightarrow> Path f),
             settings.scheduler_max_workers :=
               resolve (arg_scheduler_max_workers (parse_args argv))
                 (default_scheduler_max_workers d),
             settings.domain_name :=
               resolve (arg_domain_name (parse_args argv)) (default_domain_name d)\<rparr>
   \<and> obj (ps_ctx (parse_options d argv ctx st))
       = Some (parsed_state d (parse_args argv) (fst (ensure_object ctx)))
   \<and> distinct (processing_order argv)
   \<and> before_init (log (invoke_serve init_app can_bind d argv ctx st))
       = concat (map (writes_of (parse_args argv)) (processing_order argv))
         @ [WriteSetting ''grpc_max_workers'', WriteSetting ''grpc_insecure_address_port'']
   \<and> filter is_write (before_init (log (invoke_serve init_app can_bind d argv ctx st)))
       = before_init (log (invoke_serve init_app can_bind d argv ctx st))
   \<and> filter is_construction (before_init (log (invoke_serve init_app can_bind d argv ctx st))) = []
   \<and> filter (\<lambda>e. e = CallInitApp) (log (invoke_serve init_app can_bind d argv ctx st))
       = [CallInitApp]
   \<and> filter is_write (from_init (log (invoke_serve init_app can_bind d argv ctx st))) = []"
proof -
  have db: "settings_after (database_file_callback ctx st (Some v))
              = st\<lparr>settings.database_file := Path v\<rparr>
      \<and> obj (ctx_after (database_file_callback ctx st (Some v)))
          = Some ((fst (ensure_object ctx))\<lparr>CommonOptionsState.database_file := Some (Path v)\<rparr>)
      \<and> effects (database_file_callback ctx st (Some v)) = [WriteSetting ''database_file'']"
    by (simp add: database_file_callback_def Let_def split: prod.split)
  have sm: "settings_after (scheduler_max_workers_callback ctx st (Some n))
              = st\<lparr>settings.scheduler_max_workers := n\<rparr>
      \<and> obj (ctx_after (scheduler_max_workers_callback ctx st (Some n)))
          = Some ((fst (ensure_object ctx))\<lparr>CommonOptionsState.scheduler_max_workers := Some n\<rparr>)
      \<and> effects (scheduler_max_workers_callback ctx st (Some n))
          = [WriteSetting ''scheduler_max_workers'']"
    by (simp add: scheduler_max_workers_callback_def Let_def split: prod.split)
  have dm: "settings_after (domain_name_callback ctx st (Some dn))
              = st\<lparr>settings.domain_name := dn\<rparr>
      \<and> obj (ctx_after (domain_name_callback ctx st (Some dn)))
          = Some ((fst (ensure_object ctx))\<lparr>CommonOptionsState.domain_name := Some dn\<rparr>)
      \<and> effects (domain_name_callback ctx st (Some dn)) = [WriteSetting ''domain_name'']"
    by (simp add: domain_name_callback_def Let_def split: prod.split)
  have ps: "ps_settings (parse_options d argv ctx st)
       = st\<lparr>settings.database_file :=
               (case arg_database_file (parse_args argv) of
                  None \<Rightarrow> settings.database_file st
                | Some f \<Rightarrow> Path f),
             settings.scheduler_max_workers :=
               resolve (arg_scheduler_max_workers (parse_args argv))
                 (default_scheduler_max_workers d),
             settings.domain_name :=
               resolve (arg_domain_name (parse_args argv)) (default_domain_name d)\<rparr>"
    by (simp add: parse_options_settings settings_upd_def)
  let ?ws = "concat (map (writes_of (parse_args argv)) (processing_order argv))"
  let ?pre = "?ws @ [WriteSetting ''grpc_max_workers'', WriteSetting ''grpc_insecure_address_port'']"
  have w: "filter is_write ?pre = ?pre" by (simp add: writes_are_writes)
  have c: "filter is_construction ?pre = []" by (simp add: writes_no_construction)
  show ?thesis
    using db sm dm ps w c
    by (simp add: serve_settings serve_log parse_options_ctx distinct_processing_order
        invoke_serve_log)
qed

text \<open>
  C2, as claimed: two runs with equal explicit arguments behave alike whatever the
  process-wide settings object holds. They do not: with no option given, the server is
  bound to the port the global object held at import, and with both gRPC options given
  and equal, the settings that \<^verbatim>\<open>init_app\<close> and the service find still differ with the
  global object.
\<close>

theorem ambient_settings_counterexample:
  "outcome (invoke_serve id always_bind (defaults_at_import settings_a) [] empty_ctx settings_a)
     \<noteq> outcome (invoke_serve id always_bind (defaults_at_import settings_c) [] empty_ctx settings_c)
   \<and> settings_at_init
       (invoke_serve id always_bind (defaults_at_import settings_a) grpc_argv empty_ctx settings_a)
     \<noteq> settings_at_init
       (invoke_serve id always_bind (defaults_at_import settings_c) grpc_argv empty_ctx settings_c)"
proof -
  have 1: "outcome (invoke_serve id always_bind (defaults_at_import settings_a) [] empty_ctx settings_a)
     \<noteq> outcome (invoke_serve id always_bind (defaults_at_import settings_c) [] empty_ctx settings_c)"
    by (simp add: invoke_serve_fields serve_outcome serve_settings parse_args_def no_argv_def
        resolve_def defaults_at_import_def settings_a_def settings_c_def always_bind_def)
  have 2: "settings_at_init
       (invoke_serve id always_bind (defaults_at_import settings_a) grpc_argv empty_ctx settings_a)
     \<noteq> settings_at_init
       (invoke_serve id always_bind (defaults_at_import settings_c) grpc_argv empty_ctx settings_c)"
    by (simp add: invoke_serve_settings_at_init parse_args_def no_argv_def grpc_argv_def
        resolve_def defaults_at_import_def settings_a_def settings_c_def)
  show ?thesis using 1 2 by simp
qed

text \<open>
  C2, amended. \<^verbatim>\<open>serve\<close> and what it constructs read the process-wide settings object.
  When \<^verbatim>\<open>init_app\<close> is called, each of the four attributes whose option has a default
  holds the value given on the command line, or else the value the global object held
  when the module was imported; \<^verbatim>\<open>database_file\<close> holds the path given on the command
  line, or else the value of the global object at the time of the call; every other
  attribute holds the value of the global object. The run ends as the settings that
  \<^verbatim>\<open>init_app\<close> leaves decide: in \<^verbatim>\<open>ValueError\<close> for a pool size that is not positive, in
  \<^verbatim>\<open>RuntimeError\<close> for an address that cannot be bound, and otherwise with a started
  server of that pool size bound to that address.
\<close>

theorem settings_from_argv_and_global:
  "settings_at_init (invoke_serve init_app can_bind d argv ctx st)
     = st\<lparr>settings.database_file :=
             (case arg_database_file (parse_args argv) of
                None \<Rightarrow> settings.database_file st
              | Some f \<Rightarrow> Path f),
           settings.scheduler_max_workers :=
             resolve (arg_scheduler_max_workers (parse_args argv)) (default_scheduler_max_workers d),
           settings.domain_name :=
             resolve (arg_domain_name (parse_args argv)) (default_domain_name d),
           grpc_max_workers :=
             resolve (arg_grpc_max_workers (parse_args argv)) (default_grpc_max_workers d),
           grpc_insecure_address_port :=
             resolve (arg_grpc_insecure_address_port (parse_args argv))
               (default_grpc_insecure_address_port d)\<rparr>
   \<and> defaults_at_import st0
       = \<lparr>default_scheduler_max_workers = settings.scheduler_max_workers st0,
          default_domain_name = settings.domain_name st0,
          default_grpc_max_workers = grpc_max_workers st0,
          default_grpc_insecure_address_port = grpc_insecure_address_port st0\<rparr>
   \<and> final_settings (invoke_serve init_app can_bind d argv ctx st)
       = init_app (settings_at_init (invoke_serve init_app can_bind d argv ctx st))
   \<and> outcome (invoke_serve init_app can_bind d argv ctx st)
       = (if grpc_max_workers (final_settings (invoke_serve init_app can_bind d argv ctx st)) \<le> 0
          then Inl ValueError
          else if can_bind (grpc_insecure_address_port
                              (final_settings (invoke_serve init_app can_bind d argv ctx st)))
          then Inr \<lparr>max_workers =
                      grpc_max_workers (final_settings (invoke_serve init_app can_bind d argv ctx st)),
                    servicers = 1,
                    insecure_ports =
                      [grpc_insecure_address_port
                         (final_settings (invoke_serve init_app can_bind d argv ctx st))],
                    started = True\<rparr>
          else Inl RuntimeError)"
proof -
  note a = invoke_serve_settings_at_init [of init_app can_bind d argv ctx st]
  have b: "final_settings (invoke_serve init_app can_bind d argv ctx st)
       = init_app (settings_at_init (invoke_serve init_app can_bind d argv ctx st))"
    by (simp add: invoke_serve_fields serve_settings)
  have c: "outcome (invoke_serve init_app can_bind d argv ctx st)
       = (if grpc_max_workers (final_settings (invoke_serve init_app can_bind d argv ctx st)) \<le> 0
          then Inl ValueError
          else if can_bind (grpc_insecure_address_port
                              (final_settings (invoke_serve init_app can_bind d argv ctx st)))
          then Inr \<lparr>max_workers =
                      grpc_max_workers (final_settings (invoke_serve init_app can_bind d argv ctx st)),
                    servicers = 1,
                    insecure_ports =
                      [grpc_insecure_address_port
                         (final_settings (invoke_serve init_app can_bind d argv ctx st))],
                    started = True\<rparr>
          else Inl RuntimeError)"
    unfolding invoke_serve_fields by (rule serve_outcome)
  show ?thesis using a b c by (simp add: defaults_at_import_def)
qed

section \<open>Properties of the connection record and its manager\<close>

text \<open>
  C4. The states of the Reservation machine are exactly \<^verbatim>\<open>ReserveStart\<close>,
  \<^verbatim>\<open>ReserveChecking\<close>, \<^verbatim>\<open>ReserveHeld\<close>, \<^verbatim>\<open>ReserveCommitting\<close>, \<^verbatim>\<open>ReserveAborting\<close> and
  \<^verbatim>\<open>ReserveTimeout\<close>: the transition table mentions these six and there is no other.
  \<^verbatim>\<open>ReserveHeld\<close>, \<^verbatim>\<open>ReserveCommitting\<close> and \<^verbatim>\<open>ReserveAborting\<close> are three different
  states, and each of the three state fixtures stores the value of its own state in the
  row it is given.
\<close>

theorem reservation_states_exact:
  "states_of reservation_table
     = {ReserveStart, ReserveChecking, ReserveHeld, ReserveCommitting, ReserveAborting,
        ReserveTimeout}
   \<and> states_of reservation_table = UNIV
   \<and> distinct [ReserveHeld, ReserveCommitting, ReserveAborting]
   \<and> reserve_held cid [row\<lparr>connection_id := Some cid\<rparr>]
       = Some [row\<lparr>connection_id := Some cid, reservation_state := Some ReserveHeld\<rparr>]
   \<and> reserve_committing cid [row\<lparr>connection_id := Some cid\<rparr>]
       = Some [row\<lparr>connection_id := Some cid, reservation_state := Some ReserveCommitting\<rparr>]
   \<and> reserve_aborting cid [row\<lparr>connection_id := Some cid\<rparr>]
       = Some [row\<lparr>connection_id := Some cid, reservation_state := Some ReserveAborting\<rparr>]"
proof -
  have tab: "states_of reservation_table
     = {ReserveStart, ReserveChecking, ReserveHeld, ReserveCommitting, ReserveAborting,
        ReserveTimeout}"
    by (auto simp: states_of_def reservation_table_def)
  have univ: "{ReserveStart, ReserveChecking, ReserveHeld, ReserveCommitting, ReserveAborting,
        ReserveTimeout} = (UNIV :: reservation_state set)"
  proof (rule UNIV_eq_I [symmetric])
    fix x :: reservation_state
    show "x \<in> {ReserveStart, ReserveChecking, ReserveHeld, ReserveCommitting, ReserveAborting,
        ReserveTimeout}"
      by (cases x) simp_all
  qed
  have fx: "set_reservation_state st cid [row\<lparr>connection_id := Some cid\<rparr>]
         = Some [row\<lparr>connection_id := Some cid, reservation_state := Some st\<rparr>]" for st
    by (simp add: set_reservation_state_def)
  show ?thesis using tab univ fx
    by (simp add: reserve_held_def reserve_committing_def reserve_aborting_def)
qed

text \<open>
  C5. A \<^verbatim>\<open>reserve\<close> request with bandwidth 10, start ten minutes and end twenty minutes
  after now, with both endpoints complete, that finds no record, creates one: the
  record is new in the store under an identifier the store assigns, its reservation
  state is \<^verbatim>\<open>ReserveChecking\<close> and its version is 0.
\<close>

theorem reserve_creates_checking:
  assumes "req_verb r = Reserve p"
    and "p_bandwidth p = 10"
    and "p_startTime p = now + minutes 10"
    and "p_endTime p = now + minutes 20"
    and "endpoint_complete (p_source p)"
    and "endpoint_complete (p_destination p)"
    and "lookup s (req_connectionId r) = None"
  shows "\<exists>c. handle s r = (s @ [c], Inr c)
           \<and> reservationState c = ReserveChecking
           \<and> version c = 0
           \<and> connectionId c = fresh_id (map connectionId s)
           \<and> load s (connectionId c) = None
           \<and> load (s @ [c]) (connectionId c) = Some c
           \<and> bandwidth c = 10
           \<and> startTime c = now + minutes 10
           \<and> endTime c = now + minutes 20"
proof -
  have "valid_params p" using assms(2-6) by (simp add: valid_params_def minutes_def)
  then have nm: "\<not> malformed r" using assms(1) by (simp add: malformed_def)
  let ?c = "fst (create s (new_connection p))"
  have h: "handle s r = (s @ [?c], Inr ?c)"
    using handle_absent_reserve [OF nm assms(7) assms(1)] by (simp add: create_def Let_def)
  have id: "connectionId ?c = fresh_id (map connectionId s)" by (simp add: create_def Let_def)
  have "load s (connectionId ?c) = None" using id load_fresh by simp
  moreover from this have "load (s @ [?c]) (connectionId ?c) = Some ?c"
    by (simp add: load_append)
  ultimately show ?thesis using h id assms(2-4)
    by (simp add: create_def Let_def new_connection_def)
qed

text \<open>C5 at the request of the test fixture, on the empty store.\<close>

theorem reserve_creates_checking_witness:
  "req_verb reserve1 = Reserve params1
   \<and> p_bandwidth params1 = 10
   \<and> p_startTime params1 = 0 + minutes 10
   \<and> p_endTime params1 = 0 + minutes 20
   \<and> endpoint_complete (p_source params1)
   \<and> endpoint_complete (p_destination params1)
   \<and> lookup [] (req_connectionId reserve1) = None
   \<and> handle [] reserve1 = ([conn1], Inr conn1)
   \<and> reservationState conn1 = ReserveChecking
   \<and> version conn1 = 0
   \<and> connectionId conn1 = 1"
proof -
  have a1: "req_verb reserve1 = Reserve params1" by (simp add: reserve1_def)
  have a2: "p_bandwidth params1 = 10" by (simp add: params1_def)
  have a3: "p_startTime params1 = 0 + minutes 10" by (simp add: params1_def)
  have a4: "p_endTime params1 = 0 + minutes 20" by (simp add: params1_def)
  have a5: "endpoint_complete (p_source params1)"
    by (simp add: params1_def ep1_def endpoint_complete_def)
  have a6: "endpoint_complete (p_destination params1)"
    by (simp add: params1_def ep2_def endpoint_complete_def)
  have a7: "lookup [] (req_connectionId reserve1) = None" by (simp add: reserve1_def lookup_def)
  note w = reserve_creates_checking [OF a1 a2 a3 a4 a5 a6 a7]
  have k: "reservationState conn1 = ReserveChecking \<and> version conn1 = 0
           \<and> connectionId conn1 = fresh_id (map connectionId [])"
    using w unfolding reserve1_creates by auto
  then have ci: "connectionId conn1 = 1" by (simp add: fresh_id_def)
  show ?thesis using a1 a2 a3 a4 a5 a6 a7 reserve1_creates k ci by (intro conjI) simp_all
qed

text \<open>
  C6. An operation addressed to a record that exists leaves it with its version
  increased by exactly 1 when it succeeds, and leaves the store as it was when it is
  rejected; over any sequence of operations the record stays and its version does not
  decrease; a record starts at version 0 when the store creates it, as does the row of
  the test fixture.
\<close>

theorem version_counts_operations:
  assumes "load s cid = Some c" and "req_connectionId r = Some cid"
  shows "(case snd (handle s r) of
            Inr c1 \<Rightarrow> version c1 = version c + 1 \<and> load (fst (handle s r)) cid = Some c1
          | Inl e \<Rightarrow> fst (handle s r) = s \<and> load (fst (handle s r)) cid = Some c)
         \<and> (\<exists>c1. load (run s rs) cid = Some c1 \<and> version c \<le> version c1)
         \<and> version (fst (create s0 c0)) = 0
         \<and> Reservation.version (new_reservation uuid now1 now2) = 0"
proof -
  have one: "(case snd (handle s r) of
            Inr c1 \<Rightarrow> version c1 = version c + 1 \<and> load (fst (handle s r)) cid = Some c1
          | Inl e \<Rightarrow> fst (handle s r) = s \<and> load (fst (handle s r)) cid = Some c)"
    using handle_existing [OF assms] assms(1) by (simp split: sum.splits)
  have life: "\<exists>c1. load (run s rs) cid = Some c1 \<and> version c \<le> version c1"
    using assms(1) by (rule run_keeps)
  have new: "version (fst (create s0 c0)) = 0" by (simp add: create_def Let_def)
  have fx: "Reservation.version (new_reservation uuid now1 now2) = 0"
    by (simp add: new_reservation_def)
  show ?thesis using one life new fx by simp
qed

text \<open>C6 at the record of the test fixture and the confirmation of its reservation.\<close>

theorem version_counts_operations_witness:
  "load store1 1 = Some conn1
   \<and> req_connectionId confirmed1 = Some 1
   \<and> version conn1 = 0
   \<and> snd (handle store1 confirmed1) = Inr (conn1\<lparr>reservationState := ReserveHeld, version := 1\<rparr>)
   \<and> version (conn1\<lparr>reservationState := ReserveHeld, version := 1\<rparr>) = version conn1 + 1
   \<and> load (fst (handle store1 confirmed1)) 1
       = Some (conn1\<lparr>reservationState := ReserveHeld, version := 1\<rparr>)
   \<and> (\<exists>c1. load (run store1 [confirmed1, commit1, confirmed2]) 1 = Some c1
            \<and> version conn1 \<le> version c1)"
proof -
  have a1: "load store1 1 = Some conn1" by (simp add: load_def store1_def conn1_fields)
  have a2: "req_connectionId confirmed1 = Some 1" by (simp add: confirmed1_def)
  note w = version_counts_operations [OF a1 a2, of "[confirmed1, commit1, confirmed2]"]
  have sn: "snd (handle store1 confirmed1)
              = Inr (conn1\<lparr>reservationState := ReserveHeld, version := 1\<rparr>)"
    by (simp add: confirmed1_accepted)
  from w have "case snd (handle store1 confirmed1) of
            Inr c1 \<Rightarrow> version c1 = version conn1 + 1 \<and> load (fst (handle store1 confirmed1)) 1 = Some c1
          | Inl e \<Rightarrow> fst (handle store1 confirmed1) = store1
                     \<and> load (fst (handle store1 confirmed1)) 1 = Some conn1"
    by (rule conjunct1)
  then have k: "version (conn1\<lparr>reservationState := ReserveHeld, version := 1\<rparr>) = version conn1 + 1
      \<and> load (fst (handle store1 confirmed1)) 1
          = Some (conn1\<lparr>reservationState := ReserveHeld, version := 1\<rparr>)"
    unfolding sn by simp
  from w have l: "\<exists>c1. load (run store1 [confirmed1, commit1, confirmed2]) 1 = Some c1
            \<and> version conn1 \<le> version c1"
    by (rule conjunct1 [OF conjunct2])
  show ?thesis using a1 a2 sn k l conn1_fields(2) by (intro conjI) simp_all
qed

text \<open>
  C7. A \<^verbatim>\<open>reserve\<close> request whose bandwidth is not positive, whose end time is not after
  its start time, or which lacks a field of an endpoint, fails with \<^verbatim>\<open>ValidationError\<close>
  whatever the store holds, and the store is returned as it was given: no record is
  read, created or changed.
\<close>

theorem malformed_rejected:
  assumes "req_verb r = Reserve p"
    and "p_bandwidth p \<le> 0 \<or> p_endTime p \<le> p_startTime p
         \<or> \<not> endpoint_complete (p_source p) \<or> \<not> endpoint_complete (p_destination p)"
  shows "handle s r = (s, Inl ValidationError)"
proof -
  have "\<not> valid_params p" using assms(2) by (auto simp: valid_params_def)
  then have "malformed r" using assms(1) by (simp add: malformed_def)
  then show ?thesis by (rule handle_malformed)
qed

text \<open>C7 at a request with bandwidth 0, addressed to a record that exists.\<close>

theorem malformed_rejected_witness:
  "req_verb bad_reserve = Reserve (params1\<lparr>p_bandwidth := 0\<rparr>)
   \<and> p_bandwidth (params1\<lparr>p_bandwidth := 0\<rparr>) \<le> 0
   \<and> handle store1 bad_reserve = (store1, Inl ValidationError)"
proof -
  have v: "req_verb bad_reserve = Reserve (params1\<lparr>p_bandwidth := 0\<rparr>)"
    by (simp add: bad_reserve_def)
  have b: "p_bandwidth (params1\<lparr>p_bandwidth := 0\<rparr>) \<le> 0" by simp
  from malformed_rejected [OF v, of store1] b v show ?thesis by simp
qed

end
